theory Spec2Isabelle
  imports Main
begin

unbundle bit_operations_syntax

section \<open>The Linux sandbox: interposed system calls of detours.cpp\<close>

text \<open>
  The development embeds the wrapper templates of \<^verbatim>\<open>bxl_observer.hpp\<close>
  (\<^verbatim>\<open>result_t\<close>, \<^verbatim>\<open>should_deny\<close>, the functions generated by
  \<^verbatim>\<open>GEN_FN_DEF\<close>) and the interposed functions of \<^verbatim>\<open>detours.cpp\<close>.
  C \<^verbatim>\<open>int\<close> values (errno, descriptors, flags, pids) are HOL integers: no
  arithmetic is done on them, and the bitwise operations are applied to flag
  constants that fit 32 bits.  A C string argument is a \<open>string option\<close>, with
  \<open>None\<close> for the null pointer.
\<close>

subsection \<open>Constants of the Linux ABI (x86-64) the wrappers use\<close>

definition EPERM :: int where "EPERM = 1"
definition ENOENT :: int where "ENOENT = 2"
definition ENOSYS :: int where "ENOSYS = 38"
definition ERROR_RETURN_VALUE :: int where "ERROR_RETURN_VALUE = - 1"
definition AT_FDCWD :: int where "AT_FDCWD = - 100"
definition AT_REMOVEDIR :: int where "AT_REMOVEDIR = 512"
definition AT_SYMLINK_FOLLOW :: int where "AT_SYMLINK_FOLLOW = 1024"
definition O_ACCMODE :: int where "O_ACCMODE = 3"
definition O_WRONLY :: int where "O_WRONLY = 1"
definition O_RDWR :: int where "O_RDWR = 2"
definition O_CREAT :: int where "O_CREAT = 64"
definition O_TRUNC :: int where "O_TRUNC = 512"
definition O_NOFOLLOW :: int where "O_NOFOLLOW = 131072"
definition S_IFMT :: int where "S_IFMT = 61440"
definition S_IFDIR :: int where "S_IFDIR = 16384"
definition S_IFREG :: int where "S_IFREG = 32768"
definition MAX_FD :: int where "MAX_FD = 1024"

definition S_ISDIR :: "int \<Rightarrow> bool" where
  "S_ISDIR m = (m AND S_IFMT = S_IFDIR)"

subsection \<open>Events, reports and the state of the traced process\<close>

datatype es_event_type_t =
    ES_EVENT_TYPE_NOTIFY_OPEN
  | ES_EVENT_TYPE_NOTIFY_WRITE
  | ES_EVENT_TYPE_NOTIFY_CREATE
  | ES_EVENT_TYPE_NOTIFY_UNLINK
  | ES_EVENT_TYPE_NOTIFY_RENAME
  | ES_EVENT_TYPE_NOTIFY_LINK
  | ES_EVENT_TYPE_NOTIFY_READLINK
  | ES_EVENT_TYPE_NOTIFY_READDIR
  | ES_EVENT_TYPE_NOTIFY_STAT
  | ES_EVENT_TYPE_NOTIFY_SETMODE
  | ES_EVENT_TYPE_AUTH_SETOWNER
  | ES_EVENT_TYPE_NOTIFY_SETTIME
  | ES_EVENT_TYPE_NOTIFY_ACCESS
  | ES_EVENT_TYPE_NOTIFY_EXEC
  | ES_EVENT_TYPE_NOTIFY_FORK
  | ES_EVENT_TYPE_NOTIFY_EXIT

text \<open>
  Modelled from the spec: the class \<^verbatim>\<open>IOEvent\<close> is declared in a header that is
  not among the sources.  The record keeps the constructor arguments the wrappers pass:
  source pid, child pid, event kind, primary path, second path, executable path and
  mode bits.
\<close>

record IOEvent =
  ev_pid :: int
  ev_cpid :: int
  ev_type :: es_event_type_t
  ev_path :: string
  ev_second :: string
  ev_exec :: string
  ev_mode :: int

text \<open>
  Modelled from the spec: \<^verbatim>\<open>AccessReportGroup\<close> is declared in a header that is
  not among the sources.  A group is the event it was built for together with the errno
  that \<^verbatim>\<open>SetErrno\<close> stores in it.
\<close>

record AccessReportGroup =
  rg_event :: IOEvent
  rg_errno :: int

definition SetErrno :: "AccessReportGroup \<Rightarrow> int \<Rightarrow> AccessReportGroup" where
  "SetErrno report e = report\<lparr>rg_errno := e\<rparr>"

text \<open>
  What a wrapper does that is visible outside it, in program order: a call through a
  \<^verbatim>\<open>real_\<close> handle, an access check (any of the \<^verbatim>\<open>create_access\<close> functions),
  a report handed to \<^verbatim>\<open>SendReport\<close>, the clearing of the descriptor table, and the
  hand-off of an exec to the ptrace driver with its environment.
\<close>

datatype action =
    Real string
  | RealExec string "string list"
  | Check IOEvent
  | Send AccessReportGroup
  | ResetFdTable
  | PTraceExec "string list"

record world =
  cur_errno :: int
  trace :: "action list"
  fdTable :: "int \<rightharpoonup> string"
  pid :: int
  ppid :: int
  environ :: "string list"

text \<open>
  The observer and what surrounds it.  The first nine fields are fields of
  \<^verbatim>\<open>BxlObserver\<close> and flags of its manifest.  The others stand for code that is
  not among the sources and are parameters of the model: the interface of
  \<^verbatim>\<open>AccessCheckResult\<close> (a type parameter), the decision \<^verbatim>\<open>create_access\<close>
  returns for an event, path normalisation, directory enumeration, the file system as
  \<^verbatim>\<open>lstat\<close> sees it, \<^verbatim>\<open>fd_to_path\<close>, what the access check and the
  reporting channel do to errno, the test for a statically linked target
  (\<^verbatim>\<open>check_and_report_statically_linked_process\<close>), the search of an executable
  along \<^verbatim>\<open>PATH\<close> (\<^verbatim>\<open>resolve_filename_with_env\<close>, which gives the mode and
  the path found), and the ptrace driver, from the environment it is given and errno to
  its result and errno.
\<close>

record 'c env =
  sandbox_valid :: bool
  AllowChildProcessesToBreakAway :: bool
  FailUnexpectedFileAccesses :: bool
  rootPid :: int
  progFullPath :: string
  detoursLibFullPath :: string
  famPath :: string
  ptraceMqName :: string
  forcedPTraceProcessNamesList :: string
  ShouldDenyAccess :: "'c \<Rightarrow> bool"
  Combine :: "'c \<Rightarrow> 'c \<Rightarrow> 'c"
  Invalid :: 'c
  policy :: "IOEvent \<Rightarrow> 'c"
  normalize_path_at :: "int \<Rightarrow> string option \<Rightarrow> int \<Rightarrow> string"
  EnumerateDirectory :: "string \<Rightarrow> string list option"
  lstat_mode :: "string \<Rightarrow> int option"
  fd_to_path :: "int \<Rightarrow> string"
  check_errno :: "int \<Rightarrow> int"
  send_errno :: "int \<Rightarrow> int"
  is_statically_linked :: "string \<Rightarrow> bool"
  resolve_filename_with_env :: "string \<Rightarrow> (int \<times> string) option"
  ExecuteWithPTraceSandbox :: "string list \<Rightarrow> int \<Rightarrow> int \<times> int"

text \<open>
  What can go wrong below the level of return values: a call through a handle for which
  \<^verbatim>\<open>dlsym\<close> returned the null pointer, and \<^verbatim>\<open>back()\<close> of an empty vector.
\<close>

datatype fault = NullHandleCall | BackOfEmptyVector

text \<open>
  A \<^verbatim>\<open>real_\<close> handle applied to the arguments of the call: \<open>None\<close> when
  \<^verbatim>\<open>dlsym(RTLD_NEXT, name)\<close> returned null, otherwise the function from errno before
  the call to the result and errno after it.
\<close>

type_synonym 'r real_fn = "(int \<Rightarrow> 'r \<times> int) option"

subsection \<open>\<^verbatim>\<open>result_t\<close>\<close>

record 'r result_t =
  rt_result :: 'r
  rt_errno :: int

definition result_t1 :: "'r \<Rightarrow> world \<Rightarrow> 'r result_t" where
  "result_t1 r w = \<lparr>rt_result = r, rt_errno = cur_errno w\<rparr>"

definition result_t2 :: "'r \<Rightarrow> int \<Rightarrow> 'r result_t" where
  "result_t2 r e = \<lparr>rt_result = r, rt_errno = e\<rparr>"

definition restore :: "'r result_t \<Rightarrow> world \<Rightarrow> 'r \<times> world" where
  "restore rt w = (rt_result rt, w\<lparr>cur_errno := rt_errno rt\<rparr>)"

definition get :: "'r result_t \<Rightarrow> 'r" where
  "get rt = rt_result rt"

definition get_errno :: "'r result_t \<Rightarrow> int" where
  "get_errno rt = rt_errno rt"

definition get_errno_from_result :: "int result_t \<Rightarrow> int" where
  "get_errno_from_result rt = (if get rt = - 1 then get_errno rt else 0)"

subsection \<open>The observer: \<^verbatim>\<open>should_deny\<close>, \<^verbatim>\<open>get_mode\<close>, reporting\<close>

definition IsValid :: "'c env \<Rightarrow> bool" where
  "IsValid env = sandbox_valid env"

definition IsEnabled :: "'c env \<Rightarrow> world \<Rightarrow> bool" where
  "IsEnabled env w =
     (IsValid env \<and> \<not> (AllowChildProcessesToBreakAway env \<and> pid w \<noteq> rootPid env))"

definition IsFailingUnexpectedAccesses :: "'c env \<Rightarrow> bool" where
  "IsFailingUnexpectedAccesses env = FailUnexpectedFileAccesses env"

definition should_deny :: "'c env \<Rightarrow> world \<Rightarrow> 'c \<Rightarrow> bool" where
  "should_deny env w check =
     (IsEnabled env w \<and> ShouldDenyAccess env check \<and> IsFailingUnexpectedAccesses env)"

definition get_mode :: "'c env \<Rightarrow> string \<Rightarrow> int" where
  "get_mode env path = (case lstat_mode env path of Some m \<Rightarrow> m | None \<Rightarrow> 0)"

text \<open>
  Modelled from the spec: \<^verbatim>\<open>SendReport\<close> is declared in the header and defined in a
  file that is not among the sources.  It hands the group to the reporting channel; a
  transport failure is not propagated, but errno may change.
\<close>

definition SendReport :: "'c env \<Rightarrow> AccessReportGroup \<Rightarrow> world \<Rightarrow> world" where
  "SendReport env report w =
     w\<lparr>cur_errno := send_errno env (cur_errno w), trace := trace w @ [Send report]\<rparr>"

subsection \<open>The functions generated by \<^verbatim>\<open>GEN_FN_DEF\<close>\<close>

definition fwd :: "string \<Rightarrow> 'r real_fn \<Rightarrow> world \<Rightarrow> fault + 'r result_t \<times> world" where
  "fwd name real w =
     (case real of
        None \<Rightarrow> Inl NullHandleCall
      | Some f \<Rightarrow>
          (let w' = w\<lparr>cur_errno := snd (f (cur_errno w)), trace := trace w @ [Real name]\<rparr>
           in Inr (result_t1 (fst (f (cur_errno w))) w', w')))"

definition check_fwd_and_report ::
  "'c env \<Rightarrow> string \<Rightarrow> 'r real_fn \<Rightarrow> AccessReportGroup \<Rightarrow> 'c \<Rightarrow> 'r \<Rightarrow> world
     \<Rightarrow> fault + 'r \<times> world" where
  "check_fwd_and_report env name real report check error_val w =
     (case (if should_deny env w check
            then Inr (result_t2 error_val EPERM, w)
            else fwd name real w) of
        Inl f \<Rightarrow> Inl f
      | Inr (return_value, w1) \<Rightarrow>
          Inr (restore return_value
                 (SendReport env
                    (SetErrno report
                       (if get return_value = error_val then get_errno return_value else 0))
                    w1)))"

definition fwd_and_report ::
  "'c env \<Rightarrow> string \<Rightarrow> 'r real_fn \<Rightarrow> AccessReportGroup \<Rightarrow> 'r \<Rightarrow> world
     \<Rightarrow> fault + 'r result_t \<times> world" where
  "fwd_and_report env name real report error_val w =
     (case fwd name real w of
        Inl f \<Rightarrow> Inl f
      | Inr (return_value, w1) \<Rightarrow>
          Inr (return_value,
               SendReport env
                 (SetErrno report
                    (if get return_value = error_val then get_errno return_value else 0))
                 w1))"


subsection \<open>Access checks\<close>

definition normalize_path :: "'c env \<Rightarrow> string option \<Rightarrow> int \<Rightarrow> string" where
  "normalize_path env pathname oflags =
     (case pathname of
        None \<Rightarrow> []
      | Some p \<Rightarrow> normalize_path_at env AT_FDCWD (Some p) oflags)"

text \<open>
  The constructor \<^verbatim>\<open>IOEvent(type, action, path, exec, mode, modified, second)\<close>,
  called in the process \<open>w\<close>.
\<close>

definition IOEvent7 ::
  "world \<Rightarrow> es_event_type_t \<Rightarrow> string \<Rightarrow> string \<Rightarrow> int \<Rightarrow> string \<Rightarrow> IOEvent" where
  "IOEvent7 w t path exec m second =
     \<lparr>ev_pid = pid w, ev_cpid = 0, ev_type = t, ev_path = path, ev_second = second,
      ev_exec = exec, ev_mode = m\<rparr>"

text \<open>
  Modelled from the spec: the \<^verbatim>\<open>create_access\<close> functions are declared in the
  header and defined in a file that is not among the sources.  As the header says, they
  build the report and perform the access check, and do not send the report.  The check
  is logged in the trace; the group returned is the one for the event, with errno 0.
  The overloads for a path, for a directory descriptor and a path, and for a descriptor
  normalise the path, compute the mode when 0 is passed, and build the event.
\<close>

definition create_access ::
  "'c env \<Rightarrow> IOEvent \<Rightarrow> world \<Rightarrow> ('c \<times> AccessReportGroup) \<times> world" where
  "create_access env event w =
     ((policy env event, \<lparr>rg_event = event, rg_errno = 0\<rparr>),
      w\<lparr>cur_errno := check_errno env (cur_errno w), trace := trace w @ [Check event]\<rparr>)"

text \<open>
  Modelled from the spec: the event the overloads of \<^verbatim>\<open>create_access\<close> build for
  a normalised path; as the header says, a mode of 0 is computed from the path.
\<close>

definition path_event :: "'c env \<Rightarrow> world \<Rightarrow> es_event_type_t \<Rightarrow> string \<Rightarrow> int \<Rightarrow> IOEvent" where
  "path_event env w t path m =
     IOEvent7 w t path (progFullPath env) (if m = 0 then get_mode env path else m) []"

text \<open>
  Modelled from the spec: the overload of \<^verbatim>\<open>create_access\<close> with a path, a mode
  and open flags, declared in the header; its body is not among the sources.
\<close>

definition create_access_path ::
  "'c env \<Rightarrow> es_event_type_t \<Rightarrow> string option \<Rightarrow> int \<Rightarrow> int \<Rightarrow> world
     \<Rightarrow> ('c \<times> AccessReportGroup) \<times> world" where
  "create_access_path env t pathname m oflags w =
     create_access env (path_event env w t (normalize_path env pathname oflags) m) w"

text \<open>
  Modelled from the spec: \<^verbatim>\<open>create_access_at\<close>, declared in the header; its body
  is not among the sources.
\<close>

definition create_access_at ::
  "'c env \<Rightarrow> es_event_type_t \<Rightarrow> int \<Rightarrow> string option \<Rightarrow> int \<Rightarrow> world
     \<Rightarrow> ('c \<times> AccessReportGroup) \<times> world" where
  "create_access_at env t dirfd pathname oflags w =
     create_access env (path_event env w t (normalize_path_at env dirfd pathname oflags) 0) w"

text \<open>
  Modelled from the spec: \<^verbatim>\<open>create_access_fd\<close>, declared in the header; its body
  is not among the sources.
\<close>

definition create_access_fd ::
  "'c env \<Rightarrow> es_event_type_t \<Rightarrow> int \<Rightarrow> world \<Rightarrow> ('c \<times> AccessReportGroup) \<times> world" where
  "create_access_fd env t fd w =
     create_access env (path_event env w t (fd_to_path env fd) 0) w"

text \<open>
  Modelled from the spec: \<^verbatim>\<open>report_access\<close> is declared in the header as the
  equivalent of \<^verbatim>\<open>create_access\<close> that reports the access; its body is not among
  the sources.
\<close>

definition report_access :: "'c env \<Rightarrow> IOEvent \<Rightarrow> world \<Rightarrow> world" where
  "report_access env event w =
     (case create_access env event w of ((check, report), w1) \<Rightarrow> SendReport env report w1)"

text \<open>
  Modelled from the spec: the descriptor table and the functions that clear it are
  defined in a file that is not among the sources; descriptors outside the table are
  ignored.
\<close>

definition reset_fd_table_entry :: "int \<Rightarrow> world \<Rightarrow> world" where
  "reset_fd_table_entry fd w =
     (if 0 \<le> fd \<and> fd < MAX_FD then w\<lparr>fdTable := (fdTable w)(fd := None)\<rparr> else w)"

text \<open>
  Modelled from the spec: \<^verbatim>\<open>reset_fd_table\<close> clears the whole descriptor table;
  its body is not among the sources.
\<close>

definition reset_fd_table :: "world \<Rightarrow> world" where
  "reset_fd_table w = w\<lparr>fdTable := Map.empty, trace := trace w @ [ResetFdTable]\<rparr>"

subsection \<open>Projections of the trace\<close>

fun sent_reports :: "action list \<Rightarrow> AccessReportGroup list" where
  "sent_reports [] = []"
| "sent_reports (Send r # as) = r # sent_reports as"
| "sent_reports (a # as) = sent_reports as"

fun real_calls :: "action list \<Rightarrow> string list" where
  "real_calls [] = []"
| "real_calls (Real n # as) = n # real_calls as"
| "real_calls (RealExec n e # as) = n # real_calls as"
| "real_calls (a # as) = real_calls as"

fun checks :: "action list \<Rightarrow> IOEvent list" where
  "checks [] = []"
| "checks (Check e # as) = e # checks as"
| "checks (a # as) = checks as"

definition reported_kinds :: "action list \<Rightarrow> es_event_type_t list" where
  "reported_kinds as = map (\<lambda>r. ev_type (rg_event r)) (sent_reports as)"

subsection \<open>\<^verbatim>\<open>open\<close>, \<^verbatim>\<open>openat\<close>, \<^verbatim>\<open>creat\<close>, \<^verbatim>\<open>name_to_handle_at\<close>\<close>

definition ret_fd :: "int \<Rightarrow> world \<Rightarrow> int \<times> world" where
  "ret_fd fd w = (fd, reset_fd_table_entry fd w)"

definition CreateFileOpen ::
  "'c env \<Rightarrow> string \<Rightarrow> int \<Rightarrow> world \<Rightarrow> ('c \<times> AccessReportGroup) \<times> world" where
  "CreateFileOpen env pathStr oflag w =
     (let pathMode = get_mode env pathStr;
          pathExists = (pathMode \<noteq> 0);
          isCreate = (\<not> pathExists \<and> oflag AND (O_CREAT OR O_TRUNC) \<noteq> 0);
          hasWriteAccess = (oflag AND O_ACCMODE = O_WRONLY \<or> oflag AND O_ACCMODE = O_RDWR);
          isWrite = (pathExists \<and> (oflag AND (O_CREAT OR O_TRUNC) \<noteq> 0 \<and> hasWriteAccess))
      in create_access env
           (IOEvent7 w
              (if isCreate then ES_EVENT_TYPE_NOTIFY_CREATE
               else if isWrite then ES_EVENT_TYPE_NOTIFY_WRITE
               else ES_EVENT_TYPE_NOTIFY_OPEN)
              pathStr (progFullPath env) pathMode [])
           w)"

definition open_wrapper ::
  "'c env \<Rightarrow> int real_fn \<Rightarrow> string option \<Rightarrow> int \<Rightarrow> world \<Rightarrow> fault + int \<times> world" where
  "open_wrapper env real path oflag w =
     (case CreateFileOpen env (normalize_path env path 0) oflag w of
        ((check, report), w1) \<Rightarrow>
          (case check_fwd_and_report env ''open'' real report check ERROR_RETURN_VALUE w1 of
             Inl f \<Rightarrow> Inl f
           | Inr (fd, w2) \<Rightarrow> Inr (ret_fd fd w2)))"

definition openat ::
  "'c env \<Rightarrow> int real_fn \<Rightarrow> int \<Rightarrow> string option \<Rightarrow> int \<Rightarrow> world \<Rightarrow> fault + int \<times> world" where
  "openat env real dirfd pathname flags w =
     (case CreateFileOpen env (normalize_path_at env dirfd pathname 0) flags w of
        ((check, report), w1) \<Rightarrow>
          (case check_fwd_and_report env ''openat'' real report check ERROR_RETURN_VALUE w1 of
             Inl f \<Rightarrow> Inl f
           | Inr (fd, w2) \<Rightarrow> Inr (ret_fd fd w2)))"

definition creat ::
  "'c env \<Rightarrow> int real_fn \<Rightarrow> string option \<Rightarrow> world \<Rightarrow> fault + int \<times> world" where
  "creat env real pathname w =
     open_wrapper env real pathname (O_CREAT OR O_WRONLY OR O_TRUNC) w"

definition name_to_handle_at ::
  "'c env \<Rightarrow> int real_fn \<Rightarrow> int \<Rightarrow> string option \<Rightarrow> int \<Rightarrow> world \<Rightarrow> fault + int \<times> world" where
  "name_to_handle_at env real dirfd pathname flags w =
     (let oflags = (if flags AND AT_SYMLINK_FOLLOW \<noteq> 0 then 0 else O_NOFOLLOW)
      in case CreateFileOpen env (normalize_path_at env dirfd pathname oflags) oflags w of
           ((check, report), w1) \<Rightarrow>
             (case check_fwd_and_report env ''name_to_handle_at'' real report check
                     ERROR_RETURN_VALUE w1 of
                Inl f \<Rightarrow> Inl f
              | Inr (fd, w2) \<Rightarrow> Inr (ret_fd fd w2)))"

text \<open>The open flags \<^verbatim>\<open>name_to_handle_at\<close> computes from its \<open>flags\<close> argument.\<close>

definition handle_oflags :: "int \<Rightarrow> int" where
  "handle_oflags flags = (if flags AND AT_SYMLINK_FOLLOW \<noteq> 0 then 0 else O_NOFOLLOW)"

text \<open>
  The classification in the words of the specification: CREATE when the path does not
  exist and \<^verbatim>\<open>O_CREAT\<close> (bit 6) or \<^verbatim>\<open>O_TRUNC\<close> (bit 9) is set; WRITE when the
  path exists, one of the two is set and the access mode is \<^verbatim>\<open>O_WRONLY\<close> or
  \<^verbatim>\<open>O_RDWR\<close>; OPEN otherwise.  A path exists when \<^verbatim>\<open>get_mode\<close> finds a mode
  for it.
\<close>

definition path_exists :: "'c env \<Rightarrow> string \<Rightarrow> bool" where
  "path_exists env path = (get_mode env path \<noteq> 0)"

definition access_mode :: "int \<Rightarrow> int" where
  "access_mode oflag = oflag mod 4"

definition spec_open_kind :: "bool \<Rightarrow> int \<Rightarrow> es_event_type_t" where
  "spec_open_kind ex oflag =
     (if \<not> ex \<and> (bit oflag 6 \<or> bit oflag 9) then ES_EVENT_TYPE_NOTIFY_CREATE
      else if ex \<and> (bit oflag 6 \<or> bit oflag 9)
                \<and> (access_mode oflag = 1 \<or> access_mode oflag = 2)
           then ES_EVENT_TYPE_NOTIFY_WRITE
      else ES_EVENT_TYPE_NOTIFY_OPEN)"

subsection \<open>\<^verbatim>\<open>unlink\<close> and \<^verbatim>\<open>unlinkat\<close>\<close>

definition unlink ::
  "'c env \<Rightarrow> int real_fn \<Rightarrow> string option \<Rightarrow> world \<Rightarrow> fault + int \<times> world" where
  "unlink env real path w =
     (if path = Some [] then
        (case fwd ''unlink'' real w of
           Inl f \<Rightarrow> Inl f
         | Inr (rt, w1) \<Rightarrow> Inr (restore rt w1))
      else
        (case create_access_path env ES_EVENT_TYPE_NOTIFY_UNLINK path 0 O_NOFOLLOW w of
           ((check, report), w1) \<Rightarrow>
             check_fwd_and_report env ''unlink'' real report check ERROR_RETURN_VALUE w1))"

definition unlinkat ::
  "'c env \<Rightarrow> int real_fn \<Rightarrow> int \<Rightarrow> string option \<Rightarrow> int \<Rightarrow> world \<Rightarrow> fault + int \<times> world" where
  "unlinkat env real dirfd path flags w =
     (if dirfd = AT_FDCWD \<and> path = Some [] then
        (case fwd ''unlinkat'' real w of
           Inl f \<Rightarrow> Inl f
         | Inr (rt, w1) \<Rightarrow> Inr (restore rt w1))
      else
        (let oflags = (if flags AND AT_REMOVEDIR \<noteq> 0 then 0 else O_NOFOLLOW)
         in case create_access_at env ES_EVENT_TYPE_NOTIFY_UNLINK dirfd path oflags w of
              ((check, report), w1) \<Rightarrow>
                check_fwd_and_report env ''unlinkat'' real report check ERROR_RETURN_VALUE w1))"

subsection \<open>The \<^verbatim>\<open>printf\<close> family\<close>

definition vprintf :: "'c env \<Rightarrow> int real_fn \<Rightarrow> world \<Rightarrow> fault + int \<times> world" where
  "vprintf env real w =
     (case create_access_fd env ES_EVENT_TYPE_NOTIFY_WRITE 1 w of
        ((check, report), w1) \<Rightarrow>
          (case fwd ''vprintf'' real w1 of
             Inl f \<Rightarrow> Inl f
           | Inr (rt, w2) \<Rightarrow> Inr (restore rt w2)))"

definition vfprintf :: "'c env \<Rightarrow> int real_fn \<Rightarrow> int \<Rightarrow> world \<Rightarrow> fault + int \<times> world" where
  "vfprintf env real fileno_f w =
     (case create_access_fd env ES_EVENT_TYPE_NOTIFY_WRITE fileno_f w of
        ((check, report), w1) \<Rightarrow>
          (case fwd ''vfprintf'' real w1 of
             Inl f \<Rightarrow> Inl f
           | Inr (rt, w2) \<Rightarrow> Inr (restore rt w2)))"

definition printf :: "'c env \<Rightarrow> int real_fn \<Rightarrow> world \<Rightarrow> fault + int \<times> world" where
  "printf env real w =
     (case vprintf env real w of
        Inl f \<Rightarrow> Inl f
      | Inr (r, w1) \<Rightarrow> Inr (restore (result_t1 r w1) w1))"

definition fprintf :: "'c env \<Rightarrow> int real_fn \<Rightarrow> int \<Rightarrow> world \<Rightarrow> fault + int \<times> world" where
  "fprintf env real fileno_f w =
     (case vfprintf env real fileno_f w of
        Inl f \<Rightarrow> Inl f
      | Inr (r, w1) \<Rightarrow> Inr (restore (result_t1 r w1) w1))"

subsection \<open>\<^verbatim>\<open>fork\<close> and \<^verbatim>\<open>clone\<close>\<close>

text \<open>
  The world of these two wrappers is that of the process in which the real call
  returns: for the child, \<open>pid\<close> and \<open>ppid\<close> are what \<^verbatim>\<open>getpid\<close> and
  \<^verbatim>\<open>getppid\<close> return there.
\<close>

definition fork_event :: "'c env \<Rightarrow> int \<Rightarrow> int \<Rightarrow> IOEvent" where
  "fork_event env childPid parentPid =
     \<lparr>ev_pid = parentPid, ev_cpid = childPid, ev_type = ES_EVENT_TYPE_NOTIFY_FORK,
      ev_path = progFullPath env, ev_second = [], ev_exec = progFullPath env, ev_mode = 0\<rparr>"

definition report_child_process :: "'c env \<Rightarrow> int \<Rightarrow> int \<Rightarrow> world \<Rightarrow> world" where
  "report_child_process env childPid parentPid w =
     report_access env (fork_event env childPid parentPid) w"

definition fork :: "'c env \<Rightarrow> int real_fn \<Rightarrow> world \<Rightarrow> fault + int \<times> world" where
  "fork env real w =
     (case fwd ''fork'' real w of
        Inl f \<Rightarrow> Inl f
      | Inr (childPid, w1) \<Rightarrow>
          (if get childPid = 0
           then Inr (restore childPid
                       (report_child_process env (pid w1) (ppid w1) (reset_fd_table w1)))
           else Inr (restore childPid w1)))"

definition clone :: "'c env \<Rightarrow> int real_fn \<Rightarrow> world \<Rightarrow> fault + int \<times> world" where
  "clone env real w =
     (case fwd ''clone'' real w of
        Inl f \<Rightarrow> Inl f
      | Inr (result, w1) \<Rightarrow>
          (if get result = 0
           then Inr (restore result
                       (report_child_process env (pid w1) (ppid w1) (reset_fd_table w1)))
           else Inr (restore result w1)))"


subsection \<open>\<^verbatim>\<open>renameat\<close> and \<^verbatim>\<open>rename\<close>\<close>

text \<open>
  The loop over the enumerated entries.  \<open>check\<close> and \<open>accessesToReport\<close> are the
  variables of the same names; the loop stops after the first entry whose combined check
  is denied.  \<^verbatim>\<open>fileOrDirectory.replace(0, oldStr.length(), newStr)\<close> puts
  \<open>newStr\<close> in the place of the first \<open>length oldStr\<close> characters.
\<close>

fun rename_entries ::
  "'c env \<Rightarrow> string \<Rightarrow> string \<Rightarrow> string list \<Rightarrow> 'c \<Rightarrow> AccessReportGroup list \<Rightarrow> world
     \<Rightarrow> ('c \<times> AccessReportGroup list) \<times> world" where
  "rename_entries env oldStr newStr [] check accessesToReport w =
     ((check, accessesToReport), w)"
| "rename_entries env oldStr newStr (fileOrDirectory # rest) check accessesToReport w =
     (case create_access_path env ES_EVENT_TYPE_NOTIFY_UNLINK (Some fileOrDirectory) 0
             O_NOFOLLOW w of
        ((check1, sourceReport), w1) \<Rightarrow>
          (case CreateFileOpen env (newStr @ drop (length oldStr) fileOrDirectory)
                  (O_CREAT OR O_WRONLY) w1 of
             ((check2, targetReport), w2) \<Rightarrow>
               (if should_deny env w2 (Combine env check1 check2)
                then ((Combine env check1 check2,
                       accessesToReport @ [sourceReport, targetReport]), w2)
                else rename_entries env oldStr newStr rest (Combine env check1 check2)
                       (accessesToReport @ [sourceReport, targetReport]) w2)))"

fun send_all :: "'c env \<Rightarrow> AccessReportGroup list \<Rightarrow> world \<Rightarrow> world" where
  "send_all env [] w = w"
| "send_all env (access # rest) w = send_all env rest (SendReport env access w)"

definition renameat ::
  "'c env \<Rightarrow> int real_fn \<Rightarrow> int \<Rightarrow> string option \<Rightarrow> int \<Rightarrow> string option \<Rightarrow> world
     \<Rightarrow> fault + int \<times> world" where
  "renameat env real olddirfd oldpath newdirfd newpath w =
     (let oldStr = normalize_path_at env olddirfd oldpath O_NOFOLLOW;
          newStr = normalize_path_at env newdirfd newpath O_NOFOLLOW;
          mode = get_mode env oldStr
      in case
           (if S_ISDIR mode then
              (case EnumerateDirectory env oldStr of
                 Some filesAndDirectories \<Rightarrow>
                   rename_entries env oldStr newStr filesAndDirectories (Invalid env) [] w
               | None \<Rightarrow>
                   (case create_access env
                           (IOEvent7 w ES_EVENT_TYPE_NOTIFY_RENAME oldStr (progFullPath env)
                              mode newStr) w of
                      ((check, report), w1) \<Rightarrow> ((check, [report]), w1)))
            else
              (case create_access_path env ES_EVENT_TYPE_NOTIFY_UNLINK (Some oldStr) 0
                      O_NOFOLLOW w of
                 ((check1, sourceReport), w1) \<Rightarrow>
                   (case CreateFileOpen env newStr (O_CREAT OR O_WRONLY) w1 of
                      ((check2, destReport), w2) \<Rightarrow>
                        ((Combine env check1 check2, [sourceReport, destReport]), w2)))) of
           ((check, accessesToReport), w1) \<Rightarrow>
             (if should_deny env w1 check then
                (if accessesToReport = [] then Inl BackOfEmptyVector
                 else Inr (restore (result_t2 ERROR_RETURN_VALUE EPERM)
                             (SendReport env (last accessesToReport) w1)))
              else
                (case fwd ''renameat'' real w1 of
                   Inl f \<Rightarrow> Inl f
                 | Inr (result, w2) \<Rightarrow>
                     Inr (restore result
                            (send_all env
                               (map (\<lambda>access. SetErrno access (get_errno_from_result result))
                                  accessesToReport)
                               w2)))))"

definition rename ::
  "'c env \<Rightarrow> int real_fn \<Rightarrow> string option \<Rightarrow> string option \<Rightarrow> world \<Rightarrow> fault + int \<times> world" where
  "rename env real oldpath newpath w = renameat env real AT_FDCWD oldpath AT_FDCWD newpath w"

text \<open>
  The reports of one enumerated entry, as the loop builds them: the unlink report of the
  source entry, and the report of the destination entry, which \<^verbatim>\<open>CreateFileOpen\<close>
  classifies with the flags \<^verbatim>\<open>O_CREAT | O_WRONLY\<close>.
\<close>

definition rename_source_report :: "'c env \<Rightarrow> world \<Rightarrow> string \<Rightarrow> AccessReportGroup" where
  "rename_source_report env w e =
     \<lparr>rg_event = path_event env w ES_EVENT_TYPE_NOTIFY_UNLINK
                   (normalize_path env (Some e) O_NOFOLLOW) 0,
      rg_errno = 0\<rparr>"

definition rename_target :: "string \<Rightarrow> string \<Rightarrow> string \<Rightarrow> string" where
  "rename_target oldStr newStr e = newStr @ drop (length oldStr) e"

definition rename_dest_report :: "'c env \<Rightarrow> world \<Rightarrow> string \<Rightarrow> AccessReportGroup" where
  "rename_dest_report env w target =
     \<lparr>rg_event = IOEvent7 w
                   (if path_exists env target then ES_EVENT_TYPE_NOTIFY_WRITE
                    else ES_EVENT_TYPE_NOTIFY_CREATE)
                   target (progFullPath env) (get_mode env target) [],
      rg_errno = 0\<rparr>"

definition entry_reports ::
  "'c env \<Rightarrow> world \<Rightarrow> string \<Rightarrow> string \<Rightarrow> string \<Rightarrow> AccessReportGroup list" where
  "entry_reports env w oldStr newStr e =
     [rename_source_report env w e,
      rename_dest_report env w (rename_target oldStr newStr e)]"

definition entry_check :: "'c env \<Rightarrow> world \<Rightarrow> string \<Rightarrow> string \<Rightarrow> string \<Rightarrow> 'c" where
  "entry_check env w oldStr newStr e =
     Combine env (policy env (rg_event (rename_source_report env w e)))
       (policy env (rg_event (rename_dest_report env w (rename_target oldStr newStr e))))"

definition entry_denied :: "'c env \<Rightarrow> world \<Rightarrow> string \<Rightarrow> string \<Rightarrow> string \<Rightarrow> bool" where
  "entry_denied env w oldStr newStr e = should_deny env w (entry_check env w oldStr newStr e)"

text \<open>
  The process after the two access checks of one entry, and the report of the single
  RENAME event that is used when the enumeration fails.
\<close>

definition after_entry :: "'c env \<Rightarrow> string \<Rightarrow> string \<Rightarrow> string \<Rightarrow> world \<Rightarrow> world" where
  "after_entry env old new e w =
     w\<lparr>cur_errno := check_errno env (check_errno env (cur_errno w)),
       trace := trace w @
         [Check (rg_event (rename_source_report env w e)),
          Check (rg_event (rename_dest_report env w (rename_target old new e)))]\<rparr>"

definition rename_report :: "'c env \<Rightarrow> world \<Rightarrow> string \<Rightarrow> string \<Rightarrow> AccessReportGroup" where
  "rename_report env w oldStr newStr =
     \<lparr>rg_event = IOEvent7 w ES_EVENT_TYPE_NOTIFY_RENAME oldStr (progFullPath env)
                   (get_mode env oldStr) newStr,
      rg_errno = 0\<rparr>"

subsection \<open>The \<^verbatim>\<open>stat\<close> family (glibc before 2.33)\<close>

text \<open>
  Modelled from the spec: the overload
  \<^verbatim>\<open>report_access(syscallName, eventType, pathname, mode = 0, oflags = 0, error = 0, ...)\<close>
  is declared in the header and defined in a file that is not among the sources.  It is
  the reporting equivalent of \<^verbatim>\<open>create_access\<close> for a path: the report is built,
  its errno is set to \<open>error\<close>, and it is sent.
\<close>

definition report_access_path ::
  "'c env \<Rightarrow> es_event_type_t \<Rightarrow> string option \<Rightarrow> int \<Rightarrow> int \<Rightarrow> int \<Rightarrow> world \<Rightarrow> world" where
  "report_access_path env t pathname m oflags error w =
     (case create_access_path env t pathname m oflags w of
        ((check, report), w1) \<Rightarrow> SendReport env (SetErrno report error) w1)"

text \<open>
  \<^verbatim>\<open>__xstat\<close> passes four arguments after the event type: the mode 0 and
  \<^verbatim>\<open>get_errno_from_result(result)\<close>, which therefore is the \<open>oflags\<close> argument, and
  \<open>error\<close> keeps its default 0.  \<^verbatim>\<open>__lxstat\<close> passes \<^verbatim>\<open>O_NOFOLLOW\<close> before it.
\<close>

definition xstat ::
  "'c env \<Rightarrow> int real_fn \<Rightarrow> string option \<Rightarrow> world \<Rightarrow> fault + int \<times> world" where
  "xstat env real pathname w =
     (case fwd ''__xstat'' real w of
        Inl f \<Rightarrow> Inl f
      | Inr (result, w1) \<Rightarrow>
          Inr (restore result
                 (report_access_path env ES_EVENT_TYPE_NOTIFY_STAT pathname 0
                    (get_errno_from_result result) 0 w1)))"

definition lxstat ::
  "'c env \<Rightarrow> int real_fn \<Rightarrow> string option \<Rightarrow> world \<Rightarrow> fault + int \<times> world" where
  "lxstat env real pathname w =
     (case fwd ''__lxstat'' real w of
        Inl f \<Rightarrow> Inl f
      | Inr (result, w1) \<Rightarrow>
          Inr (restore result
                 (report_access_path env ES_EVENT_TYPE_NOTIFY_STAT pathname 0 O_NOFOLLOW
                    (get_errno_from_result result) w1)))"


subsection \<open>The exec family\<close>

definition LD_PRELOAD_ENV_VAR_PREFIX :: string where
  "LD_PRELOAD_ENV_VAR_PREFIX = ''LD_PRELOAD=''"

text \<open>
  An environment is the list of its \<^verbatim>\<open>NAME=value\<close> strings.  \<open>env_value\<close> gives
  the value of an entry that starts with the given prefix, and \<open>split_at_colon\<close> the
  paths of a colon-separated value.
\<close>

definition env_value :: "string \<Rightarrow> string \<Rightarrow> string option" where
  "env_value prefix entry =
     (if take (length prefix) entry = prefix then Some (drop (length prefix) entry) else None)"

fun split_at_colon :: "string \<Rightarrow> string \<Rightarrow> string list" where
  "split_at_colon acc [] = [acc]"
| "split_at_colon acc (c # cs) =
     (if c = CHR '':'' then acc # split_at_colon [] cs else split_at_colon (acc @ [c]) cs)"

fun join_colon :: "string list \<Rightarrow> string" where
  "join_colon [] = []"
| "join_colon [p] = p"
| "join_colon (p # q # ps) = p @ '':'' @ join_colon (q # ps)"

definition entry_has_path :: "string \<Rightarrow> string \<Rightarrow> bool" where
  "entry_has_path lib entry =
     (case env_value LD_PRELOAD_ENV_VAR_PREFIX entry of
        None \<Rightarrow> False
      | Some v \<Rightarrow> lib \<in> set (split_at_colon [] v))"

definition has_sandbox_preload :: "'c env \<Rightarrow> string list \<Rightarrow> bool" where
  "has_sandbox_preload env envp = list_ex (entry_has_path (detoursLibFullPath env)) envp"

text \<open>
  Modelled from the spec: \<^verbatim>\<open>ensureEnvs\<close> is declared in the header and defined in a
  file that is not among the sources.  It guarantees that \<^verbatim>\<open>LD_PRELOAD\<close> contains
  the path of the sandbox library, prepending it if absent, and that the manifest-path,
  ptrace-queue and forced-ptrace variables are present; these three carry the placeholder
  names of the specification.
\<close>

fun ensure_ld_preload :: "string \<Rightarrow> string list \<Rightarrow> string list" where
  "ensure_ld_preload lib [] = [LD_PRELOAD_ENV_VAR_PREFIX @ lib]"
| "ensure_ld_preload lib (e # es) =
     (case env_value LD_PRELOAD_ENV_VAR_PREFIX e of
        None \<Rightarrow> e # ensure_ld_preload lib es
      | Some v \<Rightarrow>
          (if lib \<in> set (split_at_colon [] v) then e # es
           else (LD_PRELOAD_ENV_VAR_PREFIX @ lib @ '':'' @ v) # es))"

text \<open>
  Modelled from the spec: a variable that \<^verbatim>\<open>ensureEnvs\<close> guarantees is set to the
  value the observer holds, replacing an entry of that name or added at the end.
\<close>

fun ensure_env_value :: "string \<Rightarrow> string \<Rightarrow> string list \<Rightarrow> string list" where
  "ensure_env_value name v [] = [name @ ''='' @ v]"
| "ensure_env_value name v (e # es) =
     (case env_value (name @ ''='') e of
        None \<Rightarrow> e # ensure_env_value name v es
      | Some old \<Rightarrow> (name @ ''='' @ v) # es)"

text \<open>
  Modelled from the spec: \<^verbatim>\<open>ensureEnvs\<close> itself, the four guarantees in turn.
\<close>

definition ensureEnvs :: "'c env \<Rightarrow> string list \<Rightarrow> string list" where
  "ensureEnvs env envp =
     ensure_env_value ''__FORCED_PTRACE_LIST__'' (forcedPTraceProcessNamesList env)
       (ensure_env_value ''__PTRACE_MQ__'' (ptraceMqName env)
          (ensure_env_value ''__MANIFEST_PATH__'' (famPath env)
             (ensure_ld_preload (detoursLibFullPath env) envp)))"

text \<open>
  Modelled from the spec: \<^verbatim>\<open>RemoveLDPreloadFromEnv\<close> calls
  \<^verbatim>\<open>remove_path_from_LDPRELOAD\<close>, which is not among the sources.  It removes only
  the entry of the sandbox library from \<^verbatim>\<open>LD_PRELOAD\<close>.
\<close>

definition RemoveLDPreloadFromEnv :: "'c env \<Rightarrow> string list \<Rightarrow> string list" where
  "RemoveLDPreloadFromEnv env envp =
     map (\<lambda>e. case env_value LD_PRELOAD_ENV_VAR_PREFIX e of
                 None \<Rightarrow> e
               | Some v \<Rightarrow>
                   LD_PRELOAD_ENV_VAR_PREFIX
                     @ join_colon (filter (\<lambda>p. p \<noteq> detoursLibFullPath env)
                                     (split_at_colon [] v)))
       envp"

text \<open>
  A handle of the exec family applied to the file and arguments of the call: from the
  environment passed and errno to \<open>None\<close> when the process image is replaced (the call
  does not return), or to the result and errno of the failed call.  A wrapper returns
  \<open>None\<close> as its result in the first case; the world then holds what the process did
  before it was replaced.
\<close>

type_synonym exec_fn = "(string list \<Rightarrow> int \<Rightarrow> (int \<times> int) option) option"

definition fwd_exec ::
  "string \<Rightarrow> exec_fn \<Rightarrow> string list \<Rightarrow> world \<Rightarrow> fault + int result_t option \<times> world" where
  "fwd_exec name real envp w =
     (case real of
        None \<Rightarrow> Inl NullHandleCall
      | Some f \<Rightarrow>
          (case f envp (cur_errno w) of
             None \<Rightarrow> Inr (None, w\<lparr>trace := trace w @ [RealExec name envp]\<rparr>)
           | Some (r, e) \<Rightarrow>
               (let w' = w\<lparr>cur_errno := e, trace := trace w @ [RealExec name envp]\<rparr>
                in Inr (Some (result_t1 r w'), w'))))"

text \<open>
  Modelled from the spec: \<^verbatim>\<open>report_exec\<close> is declared in the header and defined in
  a file that is not among the sources.  It reports an exec event for the file with the
  given errno.
\<close>

definition report_exec :: "'c env \<Rightarrow> string \<Rightarrow> int \<Rightarrow> int \<Rightarrow> world \<Rightarrow> world" where
  "report_exec env file error m w =
     report_access_path env ES_EVENT_TYPE_NOTIFY_EXEC (Some file) m 0 error w"

definition handle_exec_with_ptrace ::
  "'c env \<Rightarrow> string \<Rightarrow> string list \<Rightarrow> world \<Rightarrow> int \<times> world" where
  "handle_exec_with_ptrace env file envp w =
     (let w1 = reset_fd_table w;
          envp' = RemoveLDPreloadFromEnv env envp;
          w2 = w1\<lparr>cur_errno := snd (ExecuteWithPTraceSandbox env envp' (cur_errno w1)),
                  trace := trace w1 @ [PTraceExec envp']\<rparr>
      in (fst (ExecuteWithPTraceSandbox env envp' (cur_errno w1)),
          report_exec env file (cur_errno w2) 0 w2))"

text \<open>
  The end every wrapper of the family shares after the forward: if the call returned,
  report the exec with the errno captured and return the result with errno restored.
\<close>

definition report_and_restore ::
  "'c env \<Rightarrow> string \<Rightarrow> int \<Rightarrow> fault + int result_t option \<times> world \<Rightarrow> fault + int option \<times> world"
  where
  "report_and_restore env file m forwarded =
     (case forwarded of
        Inl f \<Rightarrow> Inl f
      | Inr (None, w1) \<Rightarrow> Inr (None, w1)
      | Inr (Some result, w1) \<Rightarrow>
          (case restore result (report_exec env file (get_errno result) m w1) of
             (r, w2) \<Rightarrow> Inr (Some r, w2)))"

definition ptrace_handoff ::
  "'c env \<Rightarrow> string \<Rightarrow> string list \<Rightarrow> world \<Rightarrow> fault + int option \<times> world" where
  "ptrace_handoff env file envp w =
     (case handle_exec_with_ptrace env file envp w of (r, w1) \<Rightarrow> Inr (Some r, w1))"

definition execv :: "'c env \<Rightarrow> exec_fn \<Rightarrow> string \<Rightarrow> world \<Rightarrow> fault + int option \<times> world" where
  "execv env real_execve file w =
     (if is_statically_linked env file
      then ptrace_handoff env file (ensureEnvs env (environ w)) w
      else report_and_restore env file 0
             (fwd_exec ''execve'' real_execve (ensureEnvs env (environ w)) w))"

definition execve ::
  "'c env \<Rightarrow> exec_fn \<Rightarrow> string \<Rightarrow> string list \<Rightarrow> world \<Rightarrow> fault + int option \<times> world" where
  "execve env real_execve file envp w =
     (if is_statically_linked env file
      then ptrace_handoff env file (ensureEnvs env envp) w
      else report_and_restore env file 0
             (fwd_exec ''execve'' real_execve (ensureEnvs env envp) w))"

definition execvp ::
  "'c env \<Rightarrow> exec_fn \<Rightarrow> exec_fn \<Rightarrow> string \<Rightarrow> world \<Rightarrow> fault + int option \<times> world" where
  "execvp env real_execve real_execvpe file w =
     (case resolve_filename_with_env env file of
        Some (mode, pathname) \<Rightarrow>
          (if is_statically_linked env pathname
           then ptrace_handoff env pathname (ensureEnvs env (environ w)) w
           else report_and_restore env pathname mode
                  (fwd_exec ''execve'' real_execve (ensureEnvs env (environ w)) w))
      | None \<Rightarrow>
          report_and_restore env file 0
            (fwd_exec ''execvpe'' real_execvpe (ensureEnvs env (environ w)) w))"

definition execvpe ::
  "'c env \<Rightarrow> exec_fn \<Rightarrow> string \<Rightarrow> string list \<Rightarrow> world \<Rightarrow> fault + int option \<times> world" where
  "execvpe env real_execve file envp w =
     (case resolve_filename_with_env env file of
        Some (mode, pathname) \<Rightarrow>
          (if is_statically_linked env pathname
           then ptrace_handoff env pathname (ensureEnvs env envp) w
           else report_and_restore env pathname mode
                  (fwd_exec ''execve'' real_execve (ensureEnvs env envp) w))
      | None \<Rightarrow>
          report_and_restore env file 0
            (fwd_exec ''execve'' real_execve (ensureEnvs env envp) w))"

text \<open>
  The variadic wrappers first count their arguments; \<open>argc_ok\<close> is false when
  \<^verbatim>\<open>get_variadic_argc\<close> returns -1, and the wrapper then returns -1 at once.
\<close>

definition execl ::
  "'c env \<Rightarrow> exec_fn \<Rightarrow> bool \<Rightarrow> string \<Rightarrow> world \<Rightarrow> fault + int option \<times> world" where
  "execl env real_execve argc_ok pathname w =
     (if \<not> argc_ok then Inr (Some (- 1), w)
      else if is_statically_linked env pathname
      then ptrace_handoff env pathname (ensureEnvs env (environ w)) w
      else report_and_restore env pathname 0
             (fwd_exec ''execve'' real_execve (ensureEnvs env (environ w)) w))"

definition execlp ::
  "'c env \<Rightarrow> exec_fn \<Rightarrow> exec_fn \<Rightarrow> bool \<Rightarrow> string \<Rightarrow> world \<Rightarrow> fault + int option \<times> world" where
  "execlp env real_execve real_execvp argc_ok file w =
     (if \<not> argc_ok then Inr (Some (- 1), w)
      else
        (case resolve_filename_with_env env file of
           Some (mode, pathname) \<Rightarrow>
             (if is_statically_linked env pathname
              then ptrace_handoff env pathname (ensureEnvs env (environ w)) w
              else report_and_restore env pathname mode
                     (fwd_exec ''execve'' real_execve (ensureEnvs env (environ w)) w))
         | None \<Rightarrow>
             report_and_restore env file 0
               (fwd_exec ''execvp'' real_execvp (environ w) w)))"

definition execle ::
  "'c env \<Rightarrow> exec_fn \<Rightarrow> bool \<Rightarrow> string \<Rightarrow> string list \<Rightarrow> world \<Rightarrow> fault + int option \<times> world"
  where
  "execle env real_execve argc_ok pathname envp w =
     (if \<not> argc_ok then Inr (Some (- 1), w)
      else if is_statically_linked env pathname
      then ptrace_handoff env pathname (ensureEnvs env envp) w
      else report_and_restore env pathname 0
             (fwd_exec ''execve'' real_execve (ensureEnvs env envp) w))"

text \<open>The environments handed to a real exec handle, in order.\<close>

fun exec_envs :: "action list \<Rightarrow> string list list" where
  "exec_envs [] = []"
| "exec_envs (RealExec n e # as) = e # exec_envs as"
| "exec_envs (a # as) = exec_envs as"

subsection \<open>Concrete inputs\<close>

text \<open>
  A policy that is a boolean (deny or not), joined by disjunction.  The observer is
  enabled and fails unexpected accesses; the policy denies \<^verbatim>\<open>/etc/passwd\<close>; the
  reporting channel leaves errno at 11; \<^verbatim>\<open>/d1\<close> is a directory that holds \<open>a\<close>,
  \<^verbatim>\<open>/d2\<close> an empty directory, and \<^verbatim>\<open>/d3\<close> a directory that cannot be enumerated.
\<close>

definition env0 :: "bool env" where
  "env0 =
     \<lparr>sandbox_valid = True, AllowChildProcessesToBreakAway = False,
      FailUnexpectedFileAccesses = True, rootPid = 100,
      progFullPath = ''/usr/bin/tool'', detoursLibFullPath = ''/lib/libDetours.so'',
      famPath = ''/tmp/fam'', ptraceMqName = ''/mq'', forcedPTraceProcessNamesList = [],
      ShouldDenyAccess = (\<lambda>c. c), Combine = (\<lambda>a b. a \<or> b), Invalid = False,
      policy = (\<lambda>e. ev_path e = ''/etc/passwd''),
      normalize_path_at = (\<lambda>dirfd p oflags. case p of None \<Rightarrow> [] | Some s \<Rightarrow> s),
      EnumerateDirectory = (\<lambda>d. if d = ''/d1'' then Some [''/d1'', ''/d1/a''] else None),
      lstat_mode =
        (\<lambda>p. if p = ''/d1'' \<or> p = ''/d2'' \<or> p = ''/d3'' then Some 16877
             else if p = ''/d1/a'' \<or> p = ''/etc/passwd'' then Some 33188
             else None),
      fd_to_path = (\<lambda>fd. if fd = 1 then ''/etc/passwd'' else ''/work/out.txt''),
      check_errno = (\<lambda>e. e), send_errno = (\<lambda>e. 11),
      is_statically_linked = (\<lambda>p. p = ''/bin/busybox''),
      resolve_filename_with_env = (\<lambda>f. if f = ''ls'' then Some (33261, ''/bin/ls'') else None),
      ExecuteWithPTraceSandbox = (\<lambda>envp e. (0, e))\<rparr>"

definition w0 :: world where
  "w0 = \<lparr>cur_errno = 0, trace = [], fdTable = [3 \<mapsto> ''/work/in.txt''], pid = 100, ppid = 1,
         environ = [''PATH=/opt/bin'']\<rparr>"

text \<open>A child of the root process, under a manifest that lets children break away.\<close>

definition env_breakaway :: "bool env" where
  "env_breakaway = env0\<lparr>AllowChildProcessesToBreakAway := True\<rparr>"

definition w_child :: world where
  "w_child = w0\<lparr>pid := 101, ppid := 100\<rparr>"

text \<open>A policy that denies \<^verbatim>\<open>/d2/a\<close>, and one that denies nothing.\<close>

definition env_deny :: "bool env" where
  "env_deny = env0\<lparr>policy := (\<lambda>e. ev_path e = ''/d2/a'')\<rparr>"

definition env_allow :: "bool env" where
  "env_allow = env0\<lparr>policy := (\<lambda>e. False)\<rparr>"

definition report0 :: AccessReportGroup where
  "report0 =
     \<lparr>rg_event = \<lparr>ev_pid = 100, ev_cpid = 0, ev_type = ES_EVENT_TYPE_NOTIFY_UNLINK,
                  ev_path = ''/etc/passwd'', ev_second = [], ev_exec = ''/usr/bin/tool'',
                  ev_mode = 33188\<rparr>,
      rg_errno = 0\<rparr>"

text \<open>
  Real calls: one that succeeds and leaves errno as it was, one that fails with
  \<^verbatim>\<open>ENOENT\<close>, one that succeeds with 3 and leaves errno at 25, and an exec that
  fails with \<^verbatim>\<open>ENOENT\<close>.
\<close>

definition real_succeeds :: "int \<Rightarrow> int \<times> int" where
  "real_succeeds e = (0, e)"

definition real_fails :: "int \<Rightarrow> int \<times> int" where
  "real_fails e = (- 1, 2)"

definition real_perturbs :: "int \<Rightarrow> int \<times> int" where
  "real_perturbs e = (3, 25)"

definition exec_fails :: "string list \<Rightarrow> int \<Rightarrow> (int \<times> int) option" where
  "exec_fails envp e = Some (- 1, 2)"


text \<open>The events of a stat and of an exec of the path \<open>p\<close> by the concrete process.\<close>

definition stat_event :: "string \<Rightarrow> IOEvent" where
  "stat_event p =
     \<lparr>ev_pid = 100, ev_cpid = 0, ev_type = ES_EVENT_TYPE_NOTIFY_STAT, ev_path = p,
      ev_second = [], ev_exec = ''/usr/bin/tool'', ev_mode = 0\<rparr>"

definition exec_event :: "string \<Rightarrow> IOEvent" where
  "exec_event p =
     \<lparr>ev_pid = 100, ev_cpid = 0, ev_type = ES_EVENT_TYPE_NOTIFY_EXEC, ev_path = p,
      ev_second = [], ev_exec = ''/usr/bin/tool'', ev_mode = 0\<rparr>"

section \<open>Properties\<close>

subsection \<open>Auxiliary facts\<close>

lemma sent_reports_append: "sent_reports (xs @ ys) = sent_reports xs @ sent_reports ys"
  by (induction xs rule: sent_reports.induct) simp_all

lemma real_calls_append: "real_calls (xs @ ys) = real_calls xs @ real_calls ys"
  by (induction xs rule: real_calls.induct) simp_all

lemma checks_append: "checks (xs @ ys) = checks xs @ checks ys"
  by (induction xs rule: checks.induct) simp_all

lemma bits_create_trunc:
  "(oflag AND (O_CREAT OR O_TRUNC) \<noteq> 0) = (bit oflag 6 \<or> bit oflag 9)"
proof -
  have c: "O_CREAT = 2 ^ 6" and t: "O_TRUNC = 2 ^ 9"
    by (simp_all add: O_CREAT_def O_TRUNC_def)
  have "oflag AND (O_CREAT OR O_TRUNC) = (oflag AND 2 ^ 6) OR (oflag AND 2 ^ 9)"
    unfolding c t by (rule bit.conj_disj_distrib)
  then show ?thesis
    by (simp only: or_eq_0_iff and_exp_eq_0_iff_not_bit) simp
qed

lemma and_accmode: "oflag AND O_ACCMODE = access_mode oflag"
proof -
  have "oflag AND mask 2 = oflag mod 2 ^ 2"
    by (simp only: take_bit_eq_mask [symmetric] take_bit_eq_mod)
  then show ?thesis
    by (simp add: O_ACCMODE_def access_mode_def mask_eq_exp_minus_1)
qed

lemma spec_open_kind_and:
  "spec_open_kind ex oflag =
     (if \<not> ex \<and> oflag AND 576 \<noteq> 0 then ES_EVENT_TYPE_NOTIFY_CREATE
      else if ex \<and> oflag AND 576 \<noteq> 0 \<and> (oflag AND 3 = 1 \<or> oflag AND 3 = 2)
           then ES_EVENT_TYPE_NOTIFY_WRITE
      else ES_EVENT_TYPE_NOTIFY_OPEN)"
  using bits_create_trunc [of oflag] and_accmode [of oflag]
  by (simp add: spec_open_kind_def O_CREAT_def O_TRUNC_def O_ACCMODE_def)

lemma fwd_Some:
  "fwd name (Some f) w =
     Inr (\<lparr>rt_result = fst (f (cur_errno w)), rt_errno = snd (f (cur_errno w))\<rparr>,
          w\<lparr>cur_errno := snd (f (cur_errno w)), trace := trace w @ [Real name]\<rparr>)"
  by (simp add: fwd_def result_t1_def Let_def)

lemma check_fwd_and_report_denied:
  "should_deny env w check \<Longrightarrow>
   check_fwd_and_report env name real report check error_val w =
     Inr (error_val,
          w\<lparr>cur_errno := EPERM, trace := trace w @ [Send (report\<lparr>rg_errno := EPERM\<rparr>)]\<rparr>)"
  by (simp add: check_fwd_and_report_def result_t2_def restore_def SendReport_def SetErrno_def
      get_def get_errno_def)

lemma check_fwd_and_report_forwarded:
  "\<not> should_deny env w check \<Longrightarrow>
   check_fwd_and_report env name (Some f) report check error_val w =
     Inr (fst (f (cur_errno w)),
          w\<lparr>cur_errno := snd (f (cur_errno w)),
            trace := trace w @
              [Real name,
               Send (report\<lparr>rg_errno :=
                        if fst (f (cur_errno w)) = error_val then snd (f (cur_errno w)) else 0\<rparr>)]\<rparr>)"
  by (simp add: check_fwd_and_report_def fwd_Some restore_def SendReport_def SetErrno_def
      get_def get_errno_def)

lemma fwd_and_report_forwarded:
  "fwd_and_report env name (Some f) report error_val w =
     Inr (\<lparr>rt_result = fst (f (cur_errno w)), rt_errno = snd (f (cur_errno w))\<rparr>,
          w\<lparr>cur_errno := send_errno env (snd (f (cur_errno w))),
            trace := trace w @
              [Real name,
               Send (report\<lparr>rg_errno :=
                        if fst (f (cur_errno w)) = error_val then snd (f (cur_errno w)) else 0\<rparr>)]\<rparr>)"
  by (simp add: fwd_and_report_def fwd_Some SendReport_def SetErrno_def get_def get_errno_def)

lemma check_fwd_and_report_kind:
  "\<exists>r w'. check_fwd_and_report env name (Some f) report check error_val w = Inr (r, w')
      \<and> reported_kinds (trace w') = reported_kinds (trace w) @ [ev_type (rg_event report)]"
proof (cases "should_deny env w check")
  case True
  then show ?thesis
    by (simp add: check_fwd_and_report_denied sent_reports_append reported_kinds_def)
next
  case False
  then show ?thesis
    by (simp add: check_fwd_and_report_forwarded sent_reports_append reported_kinds_def)
qed

lemma CreateFileOpen_spec:
  "CreateFileOpen env pathStr oflag w =
     create_access env
       (IOEvent7 w (spec_open_kind (path_exists env pathStr) oflag) pathStr (progFullPath env)
          (get_mode env pathStr) [])
       w"
  by (simp add: CreateFileOpen_def Let_def spec_open_kind_def path_exists_def
      bits_create_trunc and_accmode O_WRONLY_def O_RDWR_def)

lemma create_access_trace:
  "create_access env event w = ((c, r), w1) \<Longrightarrow>
     r = \<lparr>rg_event = event, rg_errno = 0\<rparr> \<and> reported_kinds (trace w1) = reported_kinds (trace w)"
  by (auto simp add: create_access_def reported_kinds_def sent_reports_append)

lemma create_access_fd_eq:
  "create_access_fd env t fd w =
     ((policy env (path_event env w t (fd_to_path env fd) 0),
       \<lparr>rg_event = path_event env w t (fd_to_path env fd) 0, rg_errno = 0\<rparr>),
      w\<lparr>cur_errno := check_errno env (cur_errno w),
        trace := trace w @ [Check (path_event env w t (fd_to_path env fd) 0)]\<rparr>)"
  by (simp add: create_access_fd_def create_access_def)

lemma report_child_process_eq:
  "report_child_process env c p w =
     w\<lparr>cur_errno := send_errno env (check_errno env (cur_errno w)),
       trace := trace w @
         [Check (fork_event env c p),
          Send \<lparr>rg_event = fork_event env c p, rg_errno = 0\<rparr>]\<rparr>"
  by (simp add: report_child_process_def report_access_def create_access_def SendReport_def)

text \<open>The concrete observer and process, field by field.\<close>

lemma env0_simps:
  "sandbox_valid env0" "\<not> AllowChildProcessesToBreakAway env0"
  "FailUnexpectedFileAccesses env0" "rootPid env0 = 100"
  "progFullPath env0 = ''/usr/bin/tool''" "detoursLibFullPath env0 = ''/lib/libDetours.so''"
  "ShouldDenyAccess env0 c = c" "Combine env0 a b = (a \<or> b)" "Invalid env0 = False"
  "policy env0 e = (ev_path e = ''/etc/passwd'')"
  "normalize_path_at env0 d p fl = (case p of None \<Rightarrow> [] | Some s \<Rightarrow> s)"
  "fd_to_path env0 fd = (if fd = 1 then ''/etc/passwd'' else ''/work/out.txt'')"
  "check_errno env0 e1 = e1" "send_errno env0 e1 = 11"
  by (simp_all add: env0_def)

lemma w0_simps: "trace w0 = []" "cur_errno w0 = 0" "pid w0 = 100" "ppid w0 = 1"
  by (simp_all add: w0_def)

lemma IsEnabled_env0: "IsEnabled env0 w0"
  by (simp add: IsEnabled_def IsValid_def env0_def w0_def)

subsection \<open>Denial: the real call is skipped and errno is EPERM\<close>

text \<open>
  Claim C1, as amended.  \<^verbatim>\<open>should_deny\<close> has three conjuncts: the observer is
  enabled, the check says the access should be denied, and the manifest fails unexpected
  accesses.  When the three hold, whatever the handle, a wrapper on the
  check-forward-and-report path makes no real call, sends the report with errno
  \<^verbatim>\<open>EPERM\<close>, and returns its error value with errno \<^verbatim>\<open>EPERM\<close>.
\<close>

theorem denied_call_is_skipped_with_EPERM:
  assumes "IsEnabled env w" and "ShouldDenyAccess env check" and "FailUnexpectedFileAccesses env"
  shows "check_fwd_and_report env name real report check error_val w =
           Inr (error_val,
                w\<lparr>cur_errno := EPERM, trace := trace w @ [Send (report\<lparr>rg_errno := EPERM\<rparr>)]\<rparr>)"
  using assms
  by (simp add: check_fwd_and_report_denied should_deny_def IsFailingUnexpectedAccesses_def)

theorem denied_call_is_skipped_with_EPERM_witness:
  "IsEnabled env0 w0 \<and> ShouldDenyAccess env0 True \<and> FailUnexpectedFileAccesses env0 \<and>
   check_fwd_and_report env0 ''unlink'' (Some real_succeeds) report0 True ERROR_RETURN_VALUE w0 =
     Inr (- 1, w0\<lparr>cur_errno := 1, trace := [Send (report0\<lparr>rg_errno := 1\<rparr>)]\<rparr>)"
proof -
  have b: "ShouldDenyAccess env0 True" by (simp add: env0_def)
  have c: "FailUnexpectedFileAccesses env0" by (simp add: env0_def)
  show ?thesis
    using b c denied_call_is_skipped_with_EPERM [OF IsEnabled_env0 b c, of "''unlink''"
        "Some real_succeeds" report0 ERROR_RETURN_VALUE]
    by (simp add: IsEnabled_env0 EPERM_def ERROR_RETURN_VALUE_def w0_simps)
qed

text \<open>
  The claim as stated fails in a child process that is allowed to break away: the check
  says deny and the manifest fails unexpected accesses, yet the observer is not enabled,
  the real \<^verbatim>\<open>unlink\<close> is called, and its result 0 is returned.
\<close>

theorem denial_in_breakaway_child_counterexample:
  "ShouldDenyAccess env_breakaway True \<and> FailUnexpectedFileAccesses env_breakaway \<and>
   check_fwd_and_report env_breakaway ''unlink'' (Some real_succeeds) report0 True
       ERROR_RETURN_VALUE w_child =
     Inr (0, w_child\<lparr>trace := [Real ''unlink'', Send report0]\<rparr>)"
  by (simp add: check_fwd_and_report_def should_deny_def IsEnabled_def IsValid_def
      env_breakaway_def env0_def w_child_def w0_def fwd_Some real_succeeds_def restore_def
      SendReport_def SetErrno_def get_def get_errno_def ERROR_RETURN_VALUE_def report0_def)

subsection \<open>Errno after a forwarded call\<close>

text \<open>
  Claim C7, as amended.  \<^verbatim>\<open>result_t\<close> captures errno in its constructor, which runs
  after the real call, so \<^verbatim>\<open>restore\<close> gives errno the value it had when the real call
  returned, whatever the reporting channel did to it since.  A forwarded call that leaves
  errno as it found it therefore returns with errno as it was at the forward.
\<close>

theorem errno_restored_to_value_after_real_call:
  assumes "\<not> should_deny env w check"
  shows "\<exists>w'. check_fwd_and_report env name (Some f) report check error_val w =
                Inr (fst (f (cur_errno w)), w')
            \<and> cur_errno w' = snd (f (cur_errno w))
            \<and> (snd (f (cur_errno w)) = cur_errno w \<longrightarrow> cur_errno w' = cur_errno w)"
  using assms by (simp add: check_fwd_and_report_forwarded)

theorem errno_restored_to_value_after_real_call_witness:
  "\<not> should_deny env0 w0 False \<and>
   (\<exists>w'. check_fwd_and_report env0 ''open'' (Some real_succeeds) report0 False
            ERROR_RETURN_VALUE w0 = Inr (0, w')
        \<and> cur_errno w' = 0)"
proof -
  have a: "\<not> should_deny env0 w0 False" by (simp add: should_deny_def env0_def)
  show ?thesis
    using a errno_restored_to_value_after_real_call [OF a, of "''open''" real_succeeds report0
        ERROR_RETURN_VALUE]
    by (simp add: real_succeeds_def w0_simps)
qed

text \<open>
  The claim as stated fails for a real call that succeeds and changes errno: errno is 0
  before the call, the call returns 3 and leaves errno at 25, and the wrapper returns
  with errno 25.
\<close>

theorem successful_call_changes_errno_counterexample:
  "\<not> should_deny env0 w0 False \<and> 3 \<noteq> ERROR_RETURN_VALUE \<and> cur_errno w0 = 0 \<and>
   check_fwd_and_report env0 ''open'' (Some real_perturbs) report0 False ERROR_RETURN_VALUE w0 =
     Inr (3, w0\<lparr>cur_errno := 25, trace := [Real ''open'', Send report0]\<rparr>)"
  by (simp add: check_fwd_and_report_def should_deny_def
      env0_def w0_def fwd_Some real_perturbs_def restore_def
      SendReport_def SetErrno_def get_def get_errno_def ERROR_RETURN_VALUE_def report0_def)

subsection \<open>A handle that was not resolved\<close>

text \<open>
  Claim C8, as amended.  \<^verbatim>\<open>GEN_FN_DEF_REAL\<close> stores what \<^verbatim>\<open>dlsym\<close> returns and
  nothing tests it.  With a null handle the forwarding functions call through it: they
  return no value, set no errno and send no report.  Only a call that is denied returns,
  with the error value and \<^verbatim>\<open>EPERM\<close>, since it never reaches the handle.
\<close>

theorem unresolved_handle_is_called:
  "fwd name None w = Inl NullHandleCall \<and>
   fwd_and_report env name None report error_val w = Inl NullHandleCall \<and>
   check_fwd_and_report env name None report check error_val w =
     (if should_deny env w check
      then Inr (error_val,
                w\<lparr>cur_errno := EPERM, trace := trace w @ [Send (report\<lparr>rg_errno := EPERM\<rparr>)]\<rparr>)
      else Inl NullHandleCall)"
  by (simp add: check_fwd_and_report_denied)
    (simp add: fwd_def fwd_and_report_def check_fwd_and_report_def)

theorem unresolved_handle_is_called_witness:
  "fwd ''statx'' (None :: int real_fn) w0 = Inl NullHandleCall \<and>
   fwd_and_report env0 ''statx'' (None :: int real_fn) report0 ERROR_RETURN_VALUE w0
     = Inl NullHandleCall \<and>
   check_fwd_and_report env0 ''statx'' (None :: int real_fn) report0 False ERROR_RETURN_VALUE w0
     = Inl NullHandleCall"
  using unresolved_handle_is_called [of "''statx''" "w0" env0 report0 ERROR_RETURN_VALUE False]
  by (simp add: should_deny_def env0_def)

text \<open>
  The claim as stated fails: with the handle of \<^verbatim>\<open>statx\<close> unresolved and an access
  that is allowed, the wrapper does not return -1 with \<^verbatim>\<open>ENOSYS\<close> after a report.
\<close>

theorem unresolved_handle_no_ENOSYS_counterexample:
  "check_fwd_and_report env0 ''statx'' (None :: int real_fn) report0 False ERROR_RETURN_VALUE w0
     \<noteq> Inr (- 1, w0\<lparr>cur_errno := ENOSYS, trace := [Send (report0\<lparr>rg_errno := ENOSYS\<rparr>)]\<rparr>)
   \<and> check_fwd_and_report env0 ''statx'' (None :: int real_fn) report0 False ERROR_RETURN_VALUE
       w0 = Inl NullHandleCall"
  by (simp add: check_fwd_and_report_def should_deny_def env0_def fwd_def)

subsection \<open>Empty paths to \<^verbatim>\<open>unlink\<close> and \<^verbatim>\<open>unlinkat\<close>\<close>

text \<open>
  Claim C9.  \<^verbatim>\<open>unlink\<close> with an empty, non-null path, and \<^verbatim>\<open>unlinkat\<close> with
  \<^verbatim>\<open>AT_FDCWD\<close> and an empty path, call the real function and return its result and
  errno; the trace gains the real call and nothing else: no access check, no report.
\<close>

theorem empty_path_unlink_forwarded_unreported:
  "unlink env (Some f) (Some []) w =
     Inr (fst (f (cur_errno w)),
          w\<lparr>cur_errno := snd (f (cur_errno w)), trace := trace w @ [Real ''unlink'']\<rparr>)
   \<and> unlinkat env (Some f) AT_FDCWD (Some []) flags w =
     Inr (fst (f (cur_errno w)),
          w\<lparr>cur_errno := snd (f (cur_errno w)), trace := trace w @ [Real ''unlinkat'']\<rparr>)"
  by (simp add: unlink_def unlinkat_def fwd_Some restore_def)

theorem empty_path_unlink_forwarded_unreported_witness:
  "unlink env0 (Some real_fails) (Some []) w0 =
     Inr (- 1, w0\<lparr>cur_errno := 2, trace := [Real ''unlink'']\<rparr>)
   \<and> unlinkat env0 (Some real_fails) AT_FDCWD (Some []) 0 w0 =
     Inr (- 1, w0\<lparr>cur_errno := 2, trace := [Real ''unlinkat'']\<rparr>)"
  using empty_path_unlink_forwarded_unreported [of env0 real_fails w0 0]
  by (simp add: real_fails_def w0_simps)

subsection \<open>The \<^verbatim>\<open>printf\<close> family is checked but never denied or reported\<close>

text \<open>
  Claim C10.  \<^verbatim>\<open>vprintf\<close> and \<^verbatim>\<open>vfprintf\<close> build a WRITE access check for the
  descriptor (1 for \<^verbatim>\<open>vprintf\<close>) and then forward the real call whatever the check
  says: the trace gains the check and the real call, no report, and the result and errno
  are those of the real call.  \<^verbatim>\<open>printf\<close> and \<^verbatim>\<open>fprintf\<close> do the same through
  them.
\<close>

theorem printf_family_forwarded_never_denied:
  "vprintf env (Some f) w =
     Inr (fst (f (check_errno env (cur_errno w))),
          w\<lparr>cur_errno := snd (f (check_errno env (cur_errno w))),
            trace := trace w @
              [Check (path_event env w ES_EVENT_TYPE_NOTIFY_WRITE (fd_to_path env 1) 0),
               Real ''vprintf'']\<rparr>)
   \<and> printf env (Some f) w = vprintf env (Some f) w
   \<and> vfprintf env (Some f) fd w =
     Inr (fst (f (check_errno env (cur_errno w))),
          w\<lparr>cur_errno := snd (f (check_errno env (cur_errno w))),
            trace := trace w @
              [Check (path_event env w ES_EVENT_TYPE_NOTIFY_WRITE (fd_to_path env fd) 0),
               Real ''vfprintf'']\<rparr>)
   \<and> fprintf env (Some f) fd w = vfprintf env (Some f) fd w"
  by (simp add: vprintf_def vfprintf_def create_access_fd_eq fwd_Some printf_def fprintf_def
      restore_def result_t1_def)

theorem printf_family_forwarded_never_denied_witness:
  "should_deny env0 w0
     (policy env0 (path_event env0 w0 ES_EVENT_TYPE_NOTIFY_WRITE (fd_to_path env0 1) 0))
   \<and> printf env0 (Some real_succeeds) w0 =
     Inr (0, w0\<lparr>trace :=
               [Check (path_event env0 w0 ES_EVENT_TYPE_NOTIFY_WRITE ''/etc/passwd'' 0),
                Real ''vprintf'']\<rparr>)
   \<and> sent_reports (trace (snd (projr (printf env0 (Some real_succeeds) w0)))) = []"
proof -
  have d: "should_deny env0 w0
     (policy env0 (path_event env0 w0 ES_EVENT_TYPE_NOTIFY_WRITE (fd_to_path env0 1) 0))"
    by (simp add: should_deny_def IsEnabled_env0 IsFailingUnexpectedAccesses_def env0_simps
        path_event_def IOEvent7_def)
  show ?thesis
    using d printf_family_forwarded_never_denied [of env0 real_succeeds w0 1]
    by (simp add: real_succeeds_def w0_simps env0_simps)
qed

subsection \<open>\<^verbatim>\<open>fork\<close> and \<^verbatim>\<open>clone\<close>\<close>

text \<open>
  Claim C5.  Both wrappers forward the real call first.  In the process where it returns
  0, the child, the descriptor table is then cleared and the FORK report, which carries
  the child's pid, is checked and sent before the wrapper returns; elsewhere the trace
  gains the real call only and the table is untouched.  So the reports of the process
  grow by the FORK report in the child and by nothing in the parent, and a child that
  has sent nothing yet sends its FORK report first.
\<close>

theorem fork_reports_from_child_after_real_call:
  "fork env (Some f) w =
     (if fst (f (cur_errno w)) = 0
      then Inr (0, w\<lparr>cur_errno := snd (f (cur_errno w)), fdTable := Map.empty,
                     trace := trace w @
                       [Real ''fork'', ResetFdTable, Check (fork_event env (pid w) (ppid w)),
                        Send \<lparr>rg_event = fork_event env (pid w) (ppid w), rg_errno = 0\<rparr>]\<rparr>)
      else Inr (fst (f (cur_errno w)),
                w\<lparr>cur_errno := snd (f (cur_errno w)), trace := trace w @ [Real ''fork'']\<rparr>))
   \<and> clone env (Some f) w =
     (if fst (f (cur_errno w)) = 0
      then Inr (0, w\<lparr>cur_errno := snd (f (cur_errno w)), fdTable := Map.empty,
                     trace := trace w @
                       [Real ''clone'', ResetFdTable, Check (fork_event env (pid w) (ppid w)),
                        Send \<lparr>rg_event = fork_event env (pid w) (ppid w), rg_errno = 0\<rparr>]\<rparr>)
      else Inr (fst (f (cur_errno w)),
                w\<lparr>cur_errno := snd (f (cur_errno w)), trace := trace w @ [Real ''clone'']\<rparr>))
   \<and> sent_reports (trace (snd (projr (fork env (Some f) w)))) =
       sent_reports (trace w) @
         (if fst (f (cur_errno w)) = 0
          then [\<lparr>rg_event = fork_event env (pid w) (ppid w), rg_errno = 0\<rparr>] else [])
   \<and> sent_reports (trace (snd (projr (clone env (Some f) w)))) =
       sent_reports (trace w) @
         (if fst (f (cur_errno w)) = 0
          then [\<lparr>rg_event = fork_event env (pid w) (ppid w), rg_errno = 0\<rparr>] else [])"
  by (simp add: fork_def clone_def fwd_Some get_def restore_def report_child_process_eq
      reset_fd_table_def sent_reports_append)

theorem fork_reports_from_child_after_real_call_witness:
  "fork env0 (Some real_succeeds) w_child =
     Inr (0, w_child\<lparr>fdTable := Map.empty,
               trace := [Real ''fork'', ResetFdTable, Check (fork_event env0 101 100),
                         Send \<lparr>rg_event = fork_event env0 101 100, rg_errno = 0\<rparr>]\<rparr>)
   \<and> sent_reports (trace (snd (projr (fork env0 (Some real_succeeds) w_child)))) =
       [\<lparr>rg_event = fork_event env0 101 100, rg_errno = 0\<rparr>]
   \<and> ev_type (fork_event env0 101 100) = ES_EVENT_TYPE_NOTIFY_FORK
   \<and> ev_cpid (fork_event env0 101 100) = 101"
  using fork_reports_from_child_after_real_call [of env0 real_succeeds w_child]
  by (simp add: real_succeeds_def w_child_def w0_def fork_event_def)

subsection \<open>The event kind of \<^verbatim>\<open>open\<close>, \<^verbatim>\<open>openat\<close>, \<^verbatim>\<open>creat\<close>, \<^verbatim>\<open>name_to_handle_at\<close>\<close>

lemma opened_kind:
  assumes "CreateFileOpen env pathStr oflag w = ((check, report), w1)"
  shows "\<exists>fd w2. check_fwd_and_report env name (Some f) report check error_val w1 = Inr (fd, w2)
           \<and> reported_kinds (trace w2) =
               reported_kinds (trace w) @ [spec_open_kind (path_exists env pathStr) oflag]"
proof -
  from assms have "report = \<lparr>rg_event = IOEvent7 w (spec_open_kind (path_exists env pathStr) oflag)
        pathStr (progFullPath env) (get_mode env pathStr) [], rg_errno = 0\<rparr>"
    and "reported_kinds (trace w1) = reported_kinds (trace w)"
    by (simp_all add: CreateFileOpen_spec create_access_trace)
  then show ?thesis
    using check_fwd_and_report_kind [of env name f report check error_val w1]
    by (simp add: IOEvent7_def)
qed

lemma ret_fd_trace: "trace (snd (ret_fd fd w)) = trace w"
  by (simp add: ret_fd_def reset_fd_table_entry_def)

lemma open_wrapper_kind:
  "\<exists>fd w'. open_wrapper env (Some f) path oflag w = Inr (fd, w')
      \<and> reported_kinds (trace w') =
          reported_kinds (trace w)
            @ [spec_open_kind (path_exists env (normalize_path env path 0)) oflag]"
proof -
  obtain check report w1 where
    c: "CreateFileOpen env (normalize_path env path 0) oflag w = ((check, report), w1)"
    by (metis surj_pair)
  from opened_kind [OF c, of "''open''" f ERROR_RETURN_VALUE] obtain fd w2 where
    "check_fwd_and_report env ''open'' (Some f) report check ERROR_RETURN_VALUE w1 = Inr (fd, w2)"
    and "reported_kinds (trace w2) =
           reported_kinds (trace w)
             @ [spec_open_kind (path_exists env (normalize_path env path 0)) oflag]"
    by blast
  then show ?thesis
    using ret_fd_trace [of fd w2]
    by (simp add: open_wrapper_def c ret_fd_def)
qed

lemma openat_kind:
  "\<exists>fd w'. openat env (Some f) dirfd path flags w = Inr (fd, w')
      \<and> reported_kinds (trace w') =
          reported_kinds (trace w)
            @ [spec_open_kind (path_exists env (normalize_path_at env dirfd path 0)) flags]"
proof -
  obtain check report w1 where
    c: "CreateFileOpen env (normalize_path_at env dirfd path 0) flags w = ((check, report), w1)"
    by (metis surj_pair)
  from opened_kind [OF c, of "''openat''" f ERROR_RETURN_VALUE] obtain fd w2 where
    "check_fwd_and_report env ''openat'' (Some f) report check ERROR_RETURN_VALUE w1
       = Inr (fd, w2)"
    and "reported_kinds (trace w2) =
           reported_kinds (trace w)
             @ [spec_open_kind (path_exists env (normalize_path_at env dirfd path 0)) flags]"
    by blast
  then show ?thesis
    using ret_fd_trace [of fd w2]
    by (simp add: openat_def c ret_fd_def)
qed

lemma name_to_handle_at_kind:
  "\<exists>fd w'. name_to_handle_at env (Some f) dirfd path flags w = Inr (fd, w')
      \<and> reported_kinds (trace w') =
          reported_kinds (trace w)
            @ [spec_open_kind
                 (path_exists env (normalize_path_at env dirfd path (handle_oflags flags)))
                 (handle_oflags flags)]"
proof -
  obtain check report w1 where
    c: "CreateFileOpen env (normalize_path_at env dirfd path (handle_oflags flags))
          (handle_oflags flags) w = ((check, report), w1)"
    by (metis surj_pair)
  from opened_kind [OF c, of "''name_to_handle_at''" f ERROR_RETURN_VALUE] obtain fd w2 where
    "check_fwd_and_report env ''name_to_handle_at'' (Some f) report check ERROR_RETURN_VALUE w1
       = Inr (fd, w2)"
    and "reported_kinds (trace w2) =
           reported_kinds (trace w)
             @ [spec_open_kind
                  (path_exists env (normalize_path_at env dirfd path (handle_oflags flags)))
                  (handle_oflags flags)]"
    by blast
  then show ?thesis
    using ret_fd_trace [of fd w2] c
    by (simp add: name_to_handle_at_def Let_def ret_fd_def handle_oflags_def)
qed

lemma handle_oflags_kind: "spec_open_kind ex (handle_oflags flags) = ES_EVENT_TYPE_NOTIFY_OPEN"
  by (simp add: spec_open_kind_and handle_oflags_def O_NOFOLLOW_def)

lemma creat_kind:
  "spec_open_kind ex (O_CREAT OR O_WRONLY OR O_TRUNC) =
     (if ex then ES_EVENT_TYPE_NOTIFY_WRITE else ES_EVENT_TYPE_NOTIFY_CREATE)"
  by (simp add: spec_open_kind_and O_CREAT_def O_WRONLY_def O_TRUNC_def)

text \<open>
  Claim C3.  Each of the four calls, forwarded through a resolved handle or denied,
  returns and sends one report, whose event kind is the classification of the
  specification applied to the existence of the normalised path and to the open flags:
  the flags of the call for \<^verbatim>\<open>open\<close> and \<^verbatim>\<open>openat\<close>,
  \<^verbatim>\<open>O_CREAT | O_WRONLY | O_TRUNC\<close> for \<^verbatim>\<open>creat\<close>, and for
  \<^verbatim>\<open>name_to_handle_at\<close> the flags it computes, 0 or \<^verbatim>\<open>O_NOFOLLOW\<close>, with
  which the kind is always OPEN.
\<close>

theorem open_family_event_kind:
  "(\<exists>fd w'. open_wrapper env (Some f) path oflag w = Inr (fd, w')
      \<and> reported_kinds (trace w') =
          reported_kinds (trace w)
            @ [spec_open_kind (path_exists env (normalize_path env path 0)) oflag])
   \<and> (\<exists>fd w'. openat env (Some f) dirfd path oflag w = Inr (fd, w')
      \<and> reported_kinds (trace w') =
          reported_kinds (trace w)
            @ [spec_open_kind (path_exists env (normalize_path_at env dirfd path 0)) oflag])
   \<and> (\<exists>fd w'. creat env (Some f) path w = Inr (fd, w')
      \<and> reported_kinds (trace w') =
          reported_kinds (trace w)
            @ [spec_open_kind (path_exists env (normalize_path env path 0))
                 (O_CREAT OR O_WRONLY OR O_TRUNC)])
   \<and> (\<exists>fd w'. name_to_handle_at env (Some f) dirfd path flags w = Inr (fd, w')
      \<and> reported_kinds (trace w') =
          reported_kinds (trace w)
            @ [spec_open_kind
                 (path_exists env (normalize_path_at env dirfd path (handle_oflags flags)))
                 (handle_oflags flags)]
      \<and> spec_open_kind
          (path_exists env (normalize_path_at env dirfd path (handle_oflags flags)))
          (handle_oflags flags) = ES_EVENT_TYPE_NOTIFY_OPEN)"
  using open_wrapper_kind [of env f path oflag w] openat_kind [of env f dirfd path oflag w]
    open_wrapper_kind [of env f path "O_CREAT OR O_WRONLY OR O_TRUNC" w]
    name_to_handle_at_kind [of env f dirfd path flags w]
  by (simp add: creat_def handle_oflags_kind)


lemma env0_fs:
  "path_exists env0 ''/etc/passwd''" "\<not> path_exists env0 ''/work/new.txt''"
  by (simp_all add: path_exists_def get_mode_def env0_def)

theorem open_family_event_kind_witness:
  "(\<exists>fd w'. open_wrapper env0 (Some real_succeeds) (Some ''/etc/passwd'') 513 w0 = Inr (fd, w')
      \<and> reported_kinds (trace w') = [ES_EVENT_TYPE_NOTIFY_WRITE])
   \<and> (\<exists>fd w'. creat env0 (Some real_succeeds) (Some ''/work/new.txt'') w0 = Inr (fd, w')
      \<and> reported_kinds (trace w') = [ES_EVENT_TYPE_NOTIFY_CREATE])"
proof -
  have k: "spec_open_kind True 513 = ES_EVENT_TYPE_NOTIFY_WRITE"
    by (simp add: spec_open_kind_and)
  have n: "normalize_path env0 (Some p) 0 = p" for p
    by (simp add: normalize_path_def env0_simps)
  have r: "reported_kinds (trace w0) = []"
    by (simp add: reported_kinds_def w0_simps)
  show ?thesis
    using open_family_event_kind [of env0 real_succeeds "Some ''/etc/passwd''" 513 w0 0 0,
        THEN conjunct1]
      open_family_event_kind [of env0 real_succeeds "Some ''/work/new.txt''" 0 w0 0 0,
        THEN conjunct2, THEN conjunct2, THEN conjunct1]
    by (simp add: n r env0_fs k creat_kind)
qed


subsection \<open>The errno of a report after a forwarded call\<close>

lemma report_access_path_eq:
  "report_access_path env t pathname m oflags error w =
     w\<lparr>cur_errno := send_errno env (check_errno env (cur_errno w)),
       trace := trace w @
         [Check (path_event env w t (normalize_path env pathname oflags) m),
          Send \<lparr>rg_event = path_event env w t (normalize_path env pathname oflags) m,
                rg_errno = error\<rparr>]\<rparr>"
  by (simp add: report_access_path_def create_access_path_def create_access_def SendReport_def
      SetErrno_def)

lemma unknown_path_event:
  assumes "lstat_mode env0 p = None"
  shows "path_event env0 (w0\<lparr>cur_errno := e, trace := tr\<rparr>) t (normalize_path env0 (Some p) fl) 0
           = \<lparr>ev_pid = 100, ev_cpid = 0, ev_type = t, ev_path = p, ev_second = [],
              ev_exec = ''/usr/bin/tool'', ev_mode = 0\<rparr>"
  using assms
  by (simp add: path_event_def IOEvent7_def normalize_path_def get_mode_def env0_simps w0_def)

text \<open>
  Claim C2.  The functions generated by \<^verbatim>\<open>GEN_FN_DEF\<close> do what the claim says
  (\<open>check_fwd_and_report_forwarded\<close>, \<open>fwd_and_report_forwarded\<close>), and so does
  \<^verbatim>\<open>__lxstat\<close>.  \<^verbatim>\<open>__xstat\<close> does not: a real call that fails with errno 2 is
  reported with errno 0, because the errno is passed where \<^verbatim>\<open>report_access\<close>
  expects the open flags.
\<close>

theorem xstat_failure_reported_with_errno_0:
  "xstat env0 (Some real_fails) (Some ''/missing'') w0 =
     Inr (- 1, w0\<lparr>cur_errno := 2,
                 trace := [Real ''__xstat'', Check (stat_event ''/missing''),
                           Send \<lparr>rg_event = stat_event ''/missing'', rg_errno = 0\<rparr>]\<rparr>)
   \<and> lxstat env0 (Some real_fails) (Some ''/missing'') w0 =
     Inr (- 1, w0\<lparr>cur_errno := 2,
                 trace := [Real ''__lxstat'', Check (stat_event ''/missing''),
                           Send \<lparr>rg_event = stat_event ''/missing'', rg_errno = 2\<rparr>]\<rparr>)"
proof -
  have m: "lstat_mode env0 ''/missing'' = None"
    by (simp add: env0_def)
  show ?thesis
    by (simp add: xstat_def lxstat_def fwd_Some real_fails_def restore_def report_access_path_eq
        get_errno_from_result_def get_def get_errno_def unknown_path_event [OF m] stat_event_def
        w0_simps)
qed

subsection \<open>The environment of a forwarded exec\<close>

lemma no_preload_in_environ: "\<not> has_sandbox_preload env0 [''PATH=/opt/bin'']"
  by (simp add: has_sandbox_preload_def entry_has_path_def env_value_def
      LD_PRELOAD_ENV_VAR_PREFIX_def)

lemma ensureEnvs_environ:
  "ensureEnvs env0 [''PATH=/opt/bin''] =
     [''PATH=/opt/bin'', ''LD_PRELOAD=/lib/libDetours.so'', ''__MANIFEST_PATH__=/tmp/fam'',
      ''__PTRACE_MQ__=/mq'', ''__FORCED_PTRACE_LIST__='']"
  by (simp add: ensureEnvs_def env_value_def LD_PRELOAD_ENV_VAR_PREFIX_def env0_def)

lemma preload_in_ensured_environ:
  "has_sandbox_preload env0 (ensureEnvs env0 [''PATH=/opt/bin''])"
  unfolding ensureEnvs_environ
  by (simp add: has_sandbox_preload_def entry_has_path_def env_value_def
      LD_PRELOAD_ENV_VAR_PREFIX_def env0_simps)

lemma env0_exec:
  "resolve_filename_with_env env0 ''tool'' = None" "environ w0 = [''PATH=/opt/bin'']"
  "lstat_mode env0 ''tool'' = None"
  by (simp_all add: env0_def w0_def)

text \<open>
  Every forward of the family hands the real call the environment that
  \<^verbatim>\<open>ensureEnvs\<close> returns, except the one \<^verbatim>\<open>execlp\<close> makes when the search
  along \<^verbatim>\<open>PATH\<close> finds nothing; the ptrace hand-off gives the driver the
  environment without the library and makes no real call.
\<close>

lemma exec_envs_append: "exec_envs (xs @ ys) = exec_envs xs @ exec_envs ys"
  by (induction xs rule: exec_envs.induct) simp_all

lemma forwarded_exec_env:
  assumes "report_and_restore env file m (fwd_exec name (Some f) envp w) = Inr (r, w')"
  shows "exec_envs (trace w') = exec_envs (trace w) @ [envp]"
  using assms
  by (auto simp add: report_and_restore_def fwd_exec_def Let_def restore_def report_exec_def
      report_access_path_eq exec_envs_append split: option.splits)

lemma exec_family_forwards_ensured_environment:
  "\<not> is_statically_linked env file \<Longrightarrow> execv env (Some f) file w = Inr (r, w') \<Longrightarrow>
     exec_envs (trace w') = exec_envs (trace w) @ [ensureEnvs env (environ w)]"
  "\<not> is_statically_linked env file \<Longrightarrow> execve env (Some f) file envp w = Inr (r, w') \<Longrightarrow>
     exec_envs (trace w') = exec_envs (trace w) @ [ensureEnvs env envp]"
  "\<not> is_statically_linked env file \<Longrightarrow> execl env (Some f) True file w = Inr (r, w') \<Longrightarrow>
     exec_envs (trace w') = exec_envs (trace w) @ [ensureEnvs env (environ w)]"
  "\<not> is_statically_linked env file \<Longrightarrow> execle env (Some f) True file envp w = Inr (r, w') \<Longrightarrow>
     exec_envs (trace w') = exec_envs (trace w) @ [ensureEnvs env envp]"
  "resolve_filename_with_env env file = None \<Longrightarrow>
     execvp env (Some f) (Some g) file w = Inr (r, w') \<Longrightarrow>
     exec_envs (trace w') = exec_envs (trace w) @ [ensureEnvs env (environ w)]"
  "resolve_filename_with_env env file = None \<Longrightarrow>
     execvpe env (Some f) file envp w = Inr (r, w') \<Longrightarrow>
     exec_envs (trace w') = exec_envs (trace w) @ [ensureEnvs env envp]"
  "resolve_filename_with_env env file = Some (m, p) \<Longrightarrow> \<not> is_statically_linked env p \<Longrightarrow>
     execvp env (Some f) (Some g) file w = Inr (r, w') \<Longrightarrow>
     exec_envs (trace w') = exec_envs (trace w) @ [ensureEnvs env (environ w)]"
  "resolve_filename_with_env env file = Some (m, p) \<Longrightarrow> \<not> is_statically_linked env p \<Longrightarrow>
     execvpe env (Some f) file envp w = Inr (r, w') \<Longrightarrow>
     exec_envs (trace w') = exec_envs (trace w) @ [ensureEnvs env envp]"
  "resolve_filename_with_env env file = Some (m, p) \<Longrightarrow> \<not> is_statically_linked env p \<Longrightarrow>
     execlp env (Some f) (Some g) True file w = Inr (r, w') \<Longrightarrow>
     exec_envs (trace w') = exec_envs (trace w) @ [ensureEnvs env (environ w)]"
  by (simp_all add: execv_def execve_def execl_def execle_def execvp_def execvpe_def execlp_def
      forwarded_exec_env)

lemma execlp_fallback_forwards_environ:
  "resolve_filename_with_env env file = None \<Longrightarrow>
     execlp env (Some f) (Some g) True file w = Inr (r, w') \<Longrightarrow>
     exec_envs (trace w') = exec_envs (trace w) @ [environ w]"
  by (simp add: execlp_def forwarded_exec_env)

lemma ptrace_handoff_strips_preload:
  "ptrace_handoff env file envp w = Inr (r, w') \<Longrightarrow>
     exec_envs (trace w') = exec_envs (trace w)
     \<and> PTraceExec (RemoveLDPreloadFromEnv env envp) \<in> set (trace w')"
  by (auto simp add: ptrace_handoff_def handle_exec_with_ptrace_def Let_def reset_fd_table_def
      report_exec_def report_access_path_eq exec_envs_append)

text \<open>
  Claim C6.  When the search along \<^verbatim>\<open>PATH\<close> finds nothing, \<^verbatim>\<open>execlp\<close>
  forwards to the real \<^verbatim>\<open>execvp\<close>, which takes the environment of the process as it
  is: \<^verbatim>\<open>ensureEnvs\<close> is not applied and \<^verbatim>\<open>LD_PRELOAD\<close> does not name the
  sandbox library.  In the same situation \<^verbatim>\<open>execvp\<close> forwards the environment that
  \<^verbatim>\<open>ensureEnvs\<close> returns, which names it.
\<close>

theorem execlp_fallback_forwards_unpatched_environ:
  "execlp env0 (Some exec_fails) (Some exec_fails) True ''tool'' w0 =
     Inr (Some (- 1),
          w0\<lparr>cur_errno := 2,
             trace := [RealExec ''execvp'' [''PATH=/opt/bin''], Check (exec_event ''tool''),
                       Send \<lparr>rg_event = exec_event ''tool'', rg_errno = 2\<rparr>]\<rparr>)
   \<and> \<not> has_sandbox_preload env0 [''PATH=/opt/bin'']
   \<and> execvp env0 (Some exec_fails) (Some exec_fails) ''tool'' w0 =
     Inr (Some (- 1),
          w0\<lparr>cur_errno := 2,
             trace := [RealExec ''execvpe'' (ensureEnvs env0 [''PATH=/opt/bin'']),
                       Check (exec_event ''tool''),
                       Send \<lparr>rg_event = exec_event ''tool'', rg_errno = 2\<rparr>]\<rparr>)
   \<and> has_sandbox_preload env0 (ensureEnvs env0 [''PATH=/opt/bin''])"
  by (simp add: no_preload_in_environ preload_in_ensured_environ)
    (simp add: execlp_def execvp_def env0_exec report_and_restore_def fwd_exec_def exec_fails_def
      result_t1_def restore_def report_exec_def report_access_path_eq get_errno_def
      unknown_path_event [OF env0_exec(3)] exec_event_def w0_simps)


subsection \<open>\<^verbatim>\<open>renameat\<close> of a directory\<close>

lemma rename_kind:
  "spec_open_kind ex (O_CREAT OR O_WRONLY) =
     (if ex then ES_EVENT_TYPE_NOTIFY_WRITE else ES_EVENT_TYPE_NOTIFY_CREATE)"
  by (simp add: spec_open_kind_and O_CREAT_def O_WRONLY_def)

lemma same_pid:
  assumes "pid w' = pid w"
  shows "rename_source_report env w' e = rename_source_report env w e"
    and "rename_dest_report env w' t = rename_dest_report env w t"
    and "should_deny env w' c = should_deny env w c"
  using assms
  by (simp_all add: rename_source_report_def rename_dest_report_def path_event_def IOEvent7_def
      should_deny_def IsEnabled_def)

lemma same_pid_entry:
  assumes "pid w' = pid w"
  shows "entry_reports env w' old new = entry_reports env w old new"
    and "entry_check env w' old new = entry_check env w old new"
    and "entry_denied env w' old new = entry_denied env w old new"
proof -
  show "entry_reports env w' old new = entry_reports env w old new"
    by (rule ext) (simp add: entry_reports_def same_pid [OF assms])
  show "entry_check env w' old new = entry_check env w old new"
    by (rule ext) (simp add: entry_check_def same_pid [OF assms])
  then show "entry_denied env w' old new = entry_denied env w old new"
    by (intro ext) (simp add: entry_denied_def same_pid [OF assms])
qed

lemma after_entry_simps:
  "pid (after_entry env old new e w) = pid w"
  "sent_reports (trace (after_entry env old new e w)) = sent_reports (trace w)"
  "real_calls (trace (after_entry env old new e w)) = real_calls (trace w)"
  by (simp_all add: after_entry_def sent_reports_append real_calls_append)

lemma rename_entries_step:
  "rename_entries env old new (e # rest) check acc w =
     (if entry_denied env w old new e
      then ((entry_check env w old new e, acc @ entry_reports env w old new e),
            after_entry env old new e w)
      else rename_entries env old new rest (entry_check env w old new e)
             (acc @ entry_reports env w old new e) (after_entry env old new e w))"
proof -
  let ?r1 = "rename_source_report env w e"
  let ?r2 = "rename_dest_report env w (rename_target old new e)"
  let ?w1 = "w\<lparr>cur_errno := check_errno env (cur_errno w),
               trace := trace w @ [Check (rg_event ?r1)]\<rparr>"
  have a: "create_access_path env ES_EVENT_TYPE_NOTIFY_UNLINK (Some e) 0 O_NOFOLLOW w =
             ((policy env (rg_event ?r1), ?r1), ?w1)"
    by (simp add: create_access_path_def create_access_def rename_source_report_def)
  have b: "CreateFileOpen env (new @ drop (length old) e) (O_CREAT OR O_WRONLY) ?w1 =
             ((policy env (rg_event ?r2), ?r2), after_entry env old new e w)"
    by (simp add: CreateFileOpen_spec rename_kind create_access_def rename_dest_report_def
        rename_target_def after_entry_def rename_source_report_def IOEvent7_def)
  have c: "should_deny env (after_entry env old new e w) x = should_deny env w x" for x
    by (rule same_pid(3)) (simp add: after_entry_def)
  show ?thesis
    by (simp add: a b c entry_denied_def entry_check_def entry_reports_def)
qed

lemma rename_entries_allowed:
  "\<forall>e\<in>set es. \<not> entry_denied env w old new e \<Longrightarrow>
   \<exists>w'. rename_entries env old new es check acc w =
           ((if es = [] then check else entry_check env w old new (last es),
             acc @ concat (map (entry_reports env w old new) es)), w')
        \<and> pid w' = pid w
        \<and> sent_reports (trace w') = sent_reports (trace w)
        \<and> real_calls (trace w') = real_calls (trace w)"
proof (induction es arbitrary: check acc w)
  case Nil
  then show ?case by simp
next
  case (Cons e es)
  let ?w2 = "after_entry env old new e w"
  have p: "pid ?w2 = pid w" by (simp add: after_entry_simps)
  from Cons.prems have "\<forall>x\<in>set es. \<not> entry_denied env ?w2 old new x"
    by (simp add: same_pid_entry [OF p])
  from Cons.IH [OF this, of "entry_check env w old new e" "acc @ entry_reports env w old new e"]
  obtain w' where
    "rename_entries env old new es (entry_check env w old new e)
        (acc @ entry_reports env w old new e) ?w2 =
       ((if es = [] then entry_check env w old new e else entry_check env ?w2 old new (last es),
         (acc @ entry_reports env w old new e) @ concat (map (entry_reports env ?w2 old new) es)),
        w')"
    and "pid w' = pid ?w2" and "sent_reports (trace w') = sent_reports (trace ?w2)"
    and "real_calls (trace w') = real_calls (trace ?w2)"
    by blast
  with Cons.prems show ?case
    by (simp add: rename_entries_step same_pid_entry [OF p] after_entry_simps
        del: rename_entries.simps)
qed

lemma rename_entries_denied:
  "find (entry_denied env w old new) es = Some d \<Longrightarrow>
   \<exists>c accs w'. rename_entries env old new es check acc w = ((c, accs), w')
        \<and> should_deny env w' c \<and> accs \<noteq> []
        \<and> last accs = rename_dest_report env w (rename_target old new d)
        \<and> pid w' = pid w
        \<and> sent_reports (trace w') = sent_reports (trace w)
        \<and> real_calls (trace w') = real_calls (trace w)"
proof (induction es arbitrary: check acc w)
  case Nil
  then show ?case by simp
next
  case (Cons e es)
  let ?w2 = "after_entry env old new e w"
  have p: "pid ?w2 = pid w" by (simp add: after_entry_simps)
  show ?case
  proof (cases "entry_denied env w old new e")
    case True
    with Cons.prems have "d = e" by simp
    with True show ?thesis
      by (simp add: rename_entries_step after_entry_simps entry_reports_def
          same_pid(3) [OF p] entry_denied_def del: rename_entries.simps)
  next
    case False
    with Cons.prems have "find (entry_denied env ?w2 old new) es = Some d"
      by (simp add: same_pid_entry [OF p] cong: find_cong)
    from Cons.IH [OF this, of "entry_check env w old new e"
        "acc @ entry_reports env w old new e"]
    show ?thesis
      using False
      by (simp add: rename_entries_step after_entry_simps same_pid [OF p]
          del: rename_entries.simps)
  qed
qed

lemma sent_reports_Send: "sent_reports (map (Send \<circ> g) rs) = map g rs"
  by (induction rs) simp_all

lemma real_calls_Send: "real_calls (map (Send \<circ> g) rs) = []"
  by (induction rs) simp_all

lemma send_all_trace: "trace (send_all env rs w) = trace w @ map Send rs"
  by (induction rs arbitrary: w) (simp_all add: SendReport_def)

lemma renameat_denied_entry:
  assumes "S_ISDIR (get_mode env (normalize_path_at env olddirfd oldpath O_NOFOLLOW))"
    and "EnumerateDirectory env (normalize_path_at env olddirfd oldpath O_NOFOLLOW) = Some es"
    and "find (entry_denied env w (normalize_path_at env olddirfd oldpath O_NOFOLLOW)
                 (normalize_path_at env newdirfd newpath O_NOFOLLOW)) es = Some d"
  shows "\<exists>w'. renameat env real olddirfd oldpath newdirfd newpath w = Inr (ERROR_RETURN_VALUE, w')
      \<and> cur_errno w' = EPERM
      \<and> real_calls (trace w') = real_calls (trace w)
      \<and> sent_reports (trace w') =
          sent_reports (trace w) @
            [rename_dest_report env w
               (rename_target (normalize_path_at env olddirfd oldpath O_NOFOLLOW)
                  (normalize_path_at env newdirfd newpath O_NOFOLLOW) d)]"
proof -
  let ?old = "normalize_path_at env olddirfd oldpath O_NOFOLLOW"
  let ?new = "normalize_path_at env newdirfd newpath O_NOFOLLOW"
  from rename_entries_denied [OF assms(3), of "Invalid env" "[]"]
  obtain c accs w1 where
    r: "rename_entries env ?old ?new es (Invalid env) [] w = ((c, accs), w1)"
    and d: "should_deny env w1 c" and n: "accs \<noteq> []"
    and l: "last accs = rename_dest_report env w (rename_target ?old ?new d)"
    and t: "sent_reports (trace w1) = sent_reports (trace w)"
       "real_calls (trace w1) = real_calls (trace w)"
    by blast
  show ?thesis
    using assms(1,2) d n
    by (simp add: renameat_def Let_def r l t restore_def result_t2_def SendReport_def
        sent_reports_append real_calls_append)
qed

lemma renameat_allowed_entries:
  assumes "S_ISDIR (get_mode env (normalize_path_at env olddirfd oldpath O_NOFOLLOW))"
    and "EnumerateDirectory env (normalize_path_at env olddirfd oldpath O_NOFOLLOW) = Some es"
    and "find (entry_denied env w (normalize_path_at env olddirfd oldpath O_NOFOLLOW)
                 (normalize_path_at env newdirfd newpath O_NOFOLLOW)) es = None"
    and "es \<noteq> []"
  shows "\<exists>e1 w'. renameat env (Some f) olddirfd oldpath newdirfd newpath w = Inr (fst (f e1), w')
      \<and> cur_errno w' = snd (f e1)
      \<and> real_calls (trace w') = real_calls (trace w) @ [''renameat'']
      \<and> sent_reports (trace w') =
          sent_reports (trace w) @
            map (\<lambda>r. SetErrno r (if fst (f e1) = - 1 then snd (f e1) else 0))
              (concat (map (entry_reports env w
                              (normalize_path_at env olddirfd oldpath O_NOFOLLOW)
                              (normalize_path_at env newdirfd newpath O_NOFOLLOW)) es))"
proof -
  let ?old = "normalize_path_at env olddirfd oldpath O_NOFOLLOW"
  let ?new = "normalize_path_at env newdirfd newpath O_NOFOLLOW"
  from assms(3) have a: "\<forall>e\<in>set es. \<not> entry_denied env w ?old ?new e"
    by (simp add: find_None_iff)
  from rename_entries_allowed [OF a, of "Invalid env" "[]"] assms(4)
  obtain w1 where
    r: "rename_entries env ?old ?new es (Invalid env) [] w =
          ((entry_check env w ?old ?new (last es),
            concat (map (entry_reports env w ?old ?new) es)), w1)"
    and p: "pid w1 = pid w"
    and t: "sent_reports (trace w1) = sent_reports (trace w)"
       "real_calls (trace w1) = real_calls (trace w)"
    by auto
  from a assms(4) have "\<not> entry_denied env w ?old ?new (last es)"
    by simp
  then have d: "\<not> should_deny env w1 (entry_check env w ?old ?new (last es))"
    by (simp add: entry_denied_def same_pid(3) [OF p])
  show ?thesis
    using assms(1,2) d
    by (intro exI [of _ "cur_errno w1"])
      (simp add: renameat_def Let_def r t fwd_Some restore_def send_all_trace
        sent_reports_append real_calls_append sent_reports_Send real_calls_Send
        get_errno_from_result_def get_def get_errno_def)
qed

lemma renameat_not_enumerated:
  assumes "S_ISDIR (get_mode env (normalize_path_at env olddirfd oldpath O_NOFOLLOW))"
    and "EnumerateDirectory env (normalize_path_at env olddirfd oldpath O_NOFOLLOW) = None"
  shows "(should_deny env w
            (policy env (rg_event (rename_report env w
               (normalize_path_at env olddirfd oldpath O_NOFOLLOW)
               (normalize_path_at env newdirfd newpath O_NOFOLLOW)))) \<longrightarrow>
          (\<exists>w'. renameat env real olddirfd oldpath newdirfd newpath w
                   = Inr (ERROR_RETURN_VALUE, w')
             \<and> cur_errno w' = EPERM
             \<and> real_calls (trace w') = real_calls (trace w)
             \<and> sent_reports (trace w') =
                 sent_reports (trace w) @
                   [rename_report env w (normalize_path_at env olddirfd oldpath O_NOFOLLOW)
                      (normalize_path_at env newdirfd newpath O_NOFOLLOW)]))
       \<and> (\<not> should_deny env w
            (policy env (rg_event (rename_report env w
               (normalize_path_at env olddirfd oldpath O_NOFOLLOW)
               (normalize_path_at env newdirfd newpath O_NOFOLLOW)))) \<longrightarrow>
          (\<exists>e1 w'. renameat env (Some f) olddirfd oldpath newdirfd newpath w
                      = Inr (fst (f e1), w')
             \<and> cur_errno w' = snd (f e1)
             \<and> real_calls (trace w') = real_calls (trace w) @ [''renameat'']
             \<and> sent_reports (trace w') =
                 sent_reports (trace w) @
                   [SetErrno (rename_report env w
                                (normalize_path_at env olddirfd oldpath O_NOFOLLOW)
                                (normalize_path_at env newdirfd newpath O_NOFOLLOW))
                      (if fst (f e1) = - 1 then snd (f e1) else 0)]))"
proof -
  let ?old = "normalize_path_at env olddirfd oldpath O_NOFOLLOW"
  let ?new = "normalize_path_at env newdirfd newpath O_NOFOLLOW"
  have c: "should_deny env (w\<lparr>cur_errno := a, trace := b\<rparr>) x = should_deny env w x"
    for a b x
    by (rule same_pid(3)) simp
  show ?thesis
    using assms
    by (intro conjI impI exI [of _ "check_errno env (cur_errno w)"])
      (simp_all add: renameat_def Let_def create_access_def rename_report_def c fwd_Some
        restore_def result_t2_def SendReport_def sent_reports_append real_calls_append
        get_errno_from_result_def get_def get_errno_def SetErrno_def)
qed

text \<open>
  Claim C4, as amended.  For a directory whose enumeration succeeds, the loop builds for
  each entry the unlink report of the source entry and the report of the destination
  entry, whose kind is WRITE when the destination exists and CREATE when it does not, and
  combines the two checks of the entry.  At the first entry whose combined check is
  denied, the real \<^verbatim>\<open>renameat\<close> is not called, the one report sent is the last
  one built (the destination report of that entry), and the result is -1 with errno
  \<^verbatim>\<open>EPERM\<close>.  When no entry is denied (and there is at least one), the real call is
  made once and every report built is sent, in order, with the errno of the real call
  if it returned -1 and 0 otherwise.  When the enumeration fails, the single report is
  that of a RENAME event with the two top-level paths, sent alone on denial and after
  the one real call otherwise.  \<^verbatim>\<open>rename\<close> is \<^verbatim>\<open>renameat\<close> with
  \<^verbatim>\<open>AT_FDCWD\<close> twice.
\<close>

theorem renameat_directory_reports:
  assumes "oldStr = normalize_path_at env olddirfd oldpath O_NOFOLLOW"
    and "newStr = normalize_path_at env newdirfd newpath O_NOFOLLOW"
    and "S_ISDIR (get_mode env oldStr)"
  shows
    "(EnumerateDirectory env oldStr = Some es
        \<and> find (entry_denied env w oldStr newStr) es = Some d \<longrightarrow>
      (\<exists>w'. renameat env real olddirfd oldpath newdirfd newpath w = Inr (ERROR_RETURN_VALUE, w')
         \<and> cur_errno w' = EPERM
         \<and> real_calls (trace w') = real_calls (trace w)
         \<and> sent_reports (trace w') =
             sent_reports (trace w) @
               [rename_dest_report env w (rename_target oldStr newStr d)]))
     \<and> (EnumerateDirectory env oldStr = Some es \<and> es \<noteq> []
        \<and> find (entry_denied env w oldStr newStr) es = None \<longrightarrow>
      (\<exists>e1 w'. renameat env (Some f) olddirfd oldpath newdirfd newpath w = Inr (fst (f e1), w')
         \<and> cur_errno w' = snd (f e1)
         \<and> real_calls (trace w') = real_calls (trace w) @ [''renameat'']
         \<and> sent_reports (trace w') =
             sent_reports (trace w) @
               map (\<lambda>r. SetErrno r (if fst (f e1) = - 1 then snd (f e1) else 0))
                 (concat (map (entry_reports env w oldStr newStr) es))))
     \<and> (EnumerateDirectory env oldStr = None
        \<and> should_deny env w (policy env (rg_event (rename_report env w oldStr newStr))) \<longrightarrow>
      (\<exists>w'. renameat env real olddirfd oldpath newdirfd newpath w = Inr (ERROR_RETURN_VALUE, w')
         \<and> cur_errno w' = EPERM
         \<and> real_calls (trace w') = real_calls (trace w)
         \<and> sent_reports (trace w') =
             sent_reports (trace w) @ [rename_report env w oldStr newStr]))
     \<and> (EnumerateDirectory env oldStr = None
        \<and> \<not> should_deny env w (policy env (rg_event (rename_report env w oldStr newStr))) \<longrightarrow>
      (\<exists>e1 w'. renameat env (Some f) olddirfd oldpath newdirfd newpath w = Inr (fst (f e1), w')
         \<and> cur_errno w' = snd (f e1)
         \<and> real_calls (trace w') = real_calls (trace w) @ [''renameat'']
         \<and> sent_reports (trace w') =
             sent_reports (trace w) @
               [SetErrno (rename_report env w oldStr newStr)
                  (if fst (f e1) = - 1 then snd (f e1) else 0)]))
     \<and> rename env real oldpath newpath w =
         renameat env real AT_FDCWD oldpath AT_FDCWD newpath w"
proof (intro conjI impI)
  assume "EnumerateDirectory env oldStr = Some es
            \<and> find (entry_denied env w oldStr newStr) es = Some d"
  then show "\<exists>w'. renameat env real olddirfd oldpath newdirfd newpath w
                     = Inr (ERROR_RETURN_VALUE, w')
         \<and> cur_errno w' = EPERM
         \<and> real_calls (trace w') = real_calls (trace w)
         \<and> sent_reports (trace w') =
             sent_reports (trace w) @
               [rename_dest_report env w (rename_target oldStr newStr d)]"
    using renameat_denied_entry [of env olddirfd oldpath es w newdirfd newpath d real] assms
    by simp
next
  assume "EnumerateDirectory env oldStr = Some es \<and> es \<noteq> []
            \<and> find (entry_denied env w oldStr newStr) es = None"
  then show "\<exists>e1 w'. renameat env (Some f) olddirfd oldpath newdirfd newpath w
                        = Inr (fst (f e1), w')
         \<and> cur_errno w' = snd (f e1)
         \<and> real_calls (trace w') = real_calls (trace w) @ [''renameat'']
         \<and> sent_reports (trace w') =
             sent_reports (trace w) @
               map (\<lambda>r. SetErrno r (if fst (f e1) = - 1 then snd (f e1) else 0))
                 (concat (map (entry_reports env w oldStr newStr) es))"
    using renameat_allowed_entries [of env olddirfd oldpath es w newdirfd newpath f] assms
    by simp
next
  assume "EnumerateDirectory env oldStr = None
            \<and> should_deny env w (policy env (rg_event (rename_report env w oldStr newStr)))"
  then show "\<exists>w'. renameat env real olddirfd oldpath newdirfd newpath w
                     = Inr (ERROR_RETURN_VALUE, w')
         \<and> cur_errno w' = EPERM
         \<and> real_calls (trace w') = real_calls (trace w)
         \<and> sent_reports (trace w') =
             sent_reports (trace w) @ [rename_report env w oldStr newStr]"
    using renameat_not_enumerated [of env olddirfd oldpath w newdirfd newpath real f] assms
    by simp
next
  assume "EnumerateDirectory env oldStr = None
            \<and> \<not> should_deny env w
                  (policy env (rg_event (rename_report env w oldStr newStr)))"
  then show "\<exists>e1 w'. renameat env (Some f) olddirfd oldpath newdirfd newpath w
                        = Inr (fst (f e1), w')
         \<and> cur_errno w' = snd (f e1)
         \<and> real_calls (trace w') = real_calls (trace w) @ [''renameat'']
         \<and> sent_reports (trace w') =
             sent_reports (trace w) @
               [SetErrno (rename_report env w oldStr newStr)
                  (if fst (f e1) = - 1 then snd (f e1) else 0)]"
    using renameat_not_enumerated [of env olddirfd oldpath w newdirfd newpath real f] assms
    by simp
next
  show "rename env real oldpath newpath w =
          renameat env real AT_FDCWD oldpath AT_FDCWD newpath w"
    by (simp add: rename_def)
qed

lemma env_rename_simps:
  "normalize_path_at env_deny d (Some p) fl = p" "normalize_path_at env_allow d (Some p) fl = p"
  "EnumerateDirectory env_deny ''/d1'' = Some [''/d1'', ''/d1/a'']"
  "EnumerateDirectory env_allow ''/d1'' = Some [''/d1'', ''/d1/a'']"
  "EnumerateDirectory env_allow ''/d3'' = None"
  "get_mode env_deny ''/d1'' = 16877" "get_mode env_allow ''/d1'' = 16877"
  "get_mode env_allow ''/d3'' = 16877"
  "get_mode env_allow ''/d1/a'' = 33188" "get_mode env_allow ''/d2'' = 16877"
  "get_mode env_allow ''/d2/a'' = 0"
  "progFullPath env_allow = ''/usr/bin/tool''"
  by (simp_all add: env_deny_def env_allow_def env0_def get_mode_def)

lemma S_ISDIR_dir: "S_ISDIR 16877"
  by (simp add: S_ISDIR_def S_IFMT_def S_IFDIR_def)

lemma denied_entries:
  "\<not> entry_denied env_deny w0 ''/d1'' ''/d2'' ''/d1''"
  "entry_denied env_deny w0 ''/d1'' ''/d2'' ''/d1/a''"
  by (simp_all add: entry_denied_def entry_check_def should_deny_def IsEnabled_def IsValid_def
      IsFailingUnexpectedAccesses_def rename_source_report_def rename_dest_report_def
      rename_target_def path_event_def IOEvent7_def normalize_path_def
      env_deny_def env0_def w0_def)

lemma allowed_entries: "\<not> entry_denied env_allow w0 old new e"
  by (simp add: entry_denied_def entry_check_def should_deny_def env_allow_def env0_def)

lemma allowed_rename:
  "\<not> should_deny env_allow w0 (policy env_allow ev)"
  by (simp add: should_deny_def env_allow_def env0_def)

lemma dest_kinds:
  "ev_type (rg_event (rename_dest_report env_deny w0 ''/d2/a'')) = ES_EVENT_TYPE_NOTIFY_CREATE"
  by (simp add: rename_dest_report_def IOEvent7_def path_exists_def get_mode_def env_deny_def
      env0_def)

theorem renameat_directory_reports_witness:
  "S_ISDIR (get_mode env_deny ''/d1'')
   \<and> EnumerateDirectory env_deny ''/d1'' = Some [''/d1'', ''/d1/a'']
   \<and> find (entry_denied env_deny w0 ''/d1'' ''/d2'') [''/d1'', ''/d1/a''] = Some ''/d1/a''
   \<and> (\<exists>w'. renameat env_deny (Some real_succeeds) AT_FDCWD (Some ''/d1'') AT_FDCWD
              (Some ''/d2'') w0 = Inr (- 1, w')
         \<and> cur_errno w' = 1 \<and> real_calls (trace w') = []
         \<and> sent_reports (trace w') = [rename_dest_report env_deny w0 ''/d2/a''])
   \<and> ev_type (rg_event (rename_dest_report env_deny w0 ''/d2/a''))
       = ES_EVENT_TYPE_NOTIFY_CREATE
   \<and> find (entry_denied env_allow w0 ''/d1'' ''/d2'') [''/d1'', ''/d1/a''] = None
   \<and> (\<exists>w'. renameat env_allow (Some real_fails) AT_FDCWD (Some ''/d1'') AT_FDCWD
              (Some ''/d2'') w0 = Inr (- 1, w')
         \<and> cur_errno w' = 2 \<and> real_calls (trace w') = [''renameat'']
         \<and> map rg_errno (sent_reports (trace w')) = [2, 2, 2, 2])
   \<and> EnumerateDirectory env_allow ''/d3'' = None
   \<and> (\<exists>w'. renameat env_allow (Some real_succeeds) AT_FDCWD (Some ''/d3'') AT_FDCWD
              (Some ''/d4'') w0 = Inr (0, w')
         \<and> real_calls (trace w') = [''renameat'']
         \<and> reported_kinds (trace w') = [ES_EVENT_TYPE_NOTIFY_RENAME])"
proof -
  have f1: "find (entry_denied env_deny w0 ''/d1'' ''/d2'') [''/d1'', ''/d1/a''] = Some ''/d1/a''"
    by (simp add: denied_entries)
  have f2: "find (entry_denied env_allow w0 ''/d1'' ''/d2'') [''/d1'', ''/d1/a''] = None"
    by (simp add: allowed_entries)
  have d: "S_ISDIR (get_mode env_deny ''/d1'')" "S_ISDIR (get_mode env_allow ''/d1'')"
    "S_ISDIR (get_mode env_allow ''/d3'')"
    by (simp_all add: env_rename_simps S_ISDIR_dir)
  note t1 = renameat_directory_reports [of "''/d1''" env_deny AT_FDCWD "Some ''/d1''" "''/d2''"
      AT_FDCWD "Some ''/d2''" "[''/d1'', ''/d1/a'']" w0 "''/d1/a''" "Some real_succeeds"
      real_succeeds, THEN conjunct1]
  note t2 = renameat_directory_reports [of "''/d1''" env_allow AT_FDCWD "Some ''/d1''" "''/d2''"
      AT_FDCWD "Some ''/d2''" "[''/d1'', ''/d1/a'']" w0 "''/d1/a''" "Some real_fails"
      real_fails, THEN conjunct2, THEN conjunct1]
  note t3 = renameat_directory_reports [of "''/d3''" env_allow AT_FDCWD "Some ''/d3''" "''/d4''"
      AT_FDCWD "Some ''/d4''" "[]" w0 "[]" "Some real_succeeds"
      real_succeeds, THEN conjunct2, THEN conjunct2, THEN conjunct2, THEN conjunct1]
  have a: "\<exists>w'. renameat env_deny (Some real_succeeds) AT_FDCWD (Some ''/d1'') AT_FDCWD
              (Some ''/d2'') w0 = Inr (- 1, w')
         \<and> cur_errno w' = 1 \<and> real_calls (trace w') = []
         \<and> sent_reports (trace w') = [rename_dest_report env_deny w0 ''/d2/a'']"
    using t1 d(1) f1
    by (simp add: env_rename_simps w0_simps rename_target_def ERROR_RETURN_VALUE_def EPERM_def)
  have b: "\<exists>w'. renameat env_allow (Some real_fails) AT_FDCWD (Some ''/d1'') AT_FDCWD
              (Some ''/d2'') w0 = Inr (- 1, w')
         \<and> cur_errno w' = 2 \<and> real_calls (trace w') = [''renameat'']
         \<and> map rg_errno (sent_reports (trace w')) = [2, 2, 2, 2]"
    using t2 d(2) f2
    by (auto simp add: env_rename_simps w0_simps real_fails_def entry_reports_def SetErrno_def)
  have c: "\<exists>w'. renameat env_allow (Some real_succeeds) AT_FDCWD (Some ''/d3'') AT_FDCWD
              (Some ''/d4'') w0 = Inr (0, w')
         \<and> real_calls (trace w') = [''renameat'']
         \<and> reported_kinds (trace w') = [ES_EVENT_TYPE_NOTIFY_RENAME]"
    using t3 d(3)
    by (auto simp add: env_rename_simps w0_simps real_succeeds_def allowed_rename SetErrno_def
        reported_kinds_def rename_report_def IOEvent7_def)
  show ?thesis
    using a b c d(1) f1 f2 by (simp add: env_rename_simps dest_kinds)
qed

text \<open>
  The claim as stated fails where a destination entry exists: renaming the directory
  \<^verbatim>\<open>/d1\<close> onto the existing empty directory \<^verbatim>\<open>/d2\<close>, the report of the
  destination of the first entry is a WRITE report, not a create report.
\<close>

theorem renameat_existing_destination_counterexample:
  "rename_target ''/d1'' ''/d2'' ''/d1'' = ''/d2''
   \<and> path_exists env_allow ''/d2''
   \<and> \<not> isl (renameat env_allow (Some real_succeeds) AT_FDCWD (Some ''/d1'') AT_FDCWD
               (Some ''/d2'') w0)
   \<and> reported_kinds
       (trace (snd (projr (renameat env_allow (Some real_succeeds) AT_FDCWD (Some ''/d1'')
                             AT_FDCWD (Some ''/d2'') w0)))) =
       [ES_EVENT_TYPE_NOTIFY_UNLINK, ES_EVENT_TYPE_NOTIFY_WRITE,
        ES_EVENT_TYPE_NOTIFY_UNLINK, ES_EVENT_TYPE_NOTIFY_CREATE]"
proof -
  have f2: "find (entry_denied env_allow w0 ''/d1'' ''/d2'') [''/d1'', ''/d1/a''] = None"
    by (simp add: allowed_entries)
  have k: "map (\<lambda>r. ev_type (rg_event r))
             (concat (map (entry_reports env_allow w0 ''/d1'' ''/d2'') [''/d1'', ''/d1/a''])) =
           [ES_EVENT_TYPE_NOTIFY_UNLINK, ES_EVENT_TYPE_NOTIFY_WRITE,
            ES_EVENT_TYPE_NOTIFY_UNLINK, ES_EVENT_TYPE_NOTIFY_CREATE]"
    by (simp add: entry_reports_def rename_source_report_def rename_dest_report_def
        rename_target_def path_event_def IOEvent7_def path_exists_def env_rename_simps)
  from renameat_allowed_entries [of env_allow AT_FDCWD "Some ''/d1''"
      "[''/d1'', ''/d1/a'']" w0 AT_FDCWD "Some ''/d2''" real_succeeds]
  obtain e1 w' where
    "renameat env_allow (Some real_succeeds) AT_FDCWD (Some ''/d1'') AT_FDCWD (Some ''/d2'') w0
       = Inr (fst (real_succeeds e1), w')"
    and "sent_reports (trace w') =
          sent_reports (trace w0) @
            map (\<lambda>r. SetErrno r (if fst (real_succeeds e1) = - 1 then snd (real_succeeds e1)
                                  else 0))
              (concat (map (entry_reports env_allow w0 ''/d1'' ''/d2'') [''/d1'', ''/d1/a'']))"
    using f2 by (auto simp add: env_rename_simps S_ISDIR_dir)
  then show ?thesis
    using k
    by (simp add: reported_kinds_def w0_simps SetErrno_def comp_def rename_target_def
        path_exists_def env_rename_simps)
qed

end
